theory Spec2Isabelle
  imports Main "HOL-Library.Word"
begin

unbundle bit_operations_syntax

section \<open>The C type \<open>float\<close>: IEEE-754 binary32\<close>

text \<open>
  Every component of a quickmath vector, matrix or quaternion is a C \<open>float\<close>. A float
  is modelled by its three bit fields: sign bit, 8-bit biased exponent and 23-bit
  fraction, so every one of the \<open>2^32\<close> bit patterns is a value of the type and the
  bitwise intrinsic \<open>_mm_xor_ps\<close> is exact. Arithmetic decodes the fields, computes the
  exact result over the integers and rounds to nearest, ties to even (the default rounding
  mode of SSE and of C), each operation on its own: a product and a sum are two roundings,
  as the intrinsics and the scalar expressions of the source are written (no fused
  multiply-add).

  NaNs are as the SSE unit of x86 produces them, since the header is compiled with its
  intrinsics. An invalid operation (\<open>0 / 0\<close>, \<open>0 * inf\<close>, \<open>inf - inf\<close>, \<open>inf / inf\<close>, the
  root of a negative number) returns the default NaN \<open>qnan\<close>, \<open>0xFFC00000\<close>. An operation
  with a NaN operand returns that operand, sign and payload kept, made quiet.
\<close>

datatype f32 = F32 (fsign: bool) (fexp: "8 word") (fman: "23 word")

definition is_nan :: "f32 \<Rightarrow> bool" where
  "is_nan a = (fexp a = 255 \<and> fman a \<noteq> 0)"

definition is_inf :: "f32 \<Rightarrow> bool" where
  "is_inf a = (fexp a = 255 \<and> fman a = 0)"

definition is_finite :: "f32 \<Rightarrow> bool" where
  "is_finite a = (fexp a \<noteq> 255)"

text \<open>
  The magnitude of a finite float as a multiple of \<open>2^-149\<close>, the smallest positive
  float: a subnormal (exponent field 0) is its fraction, a normal number carries the
  hidden bit.
\<close>

definition fmag :: "f32 \<Rightarrow> int" where
  "fmag a = (if fexp a = 0 then uint (fman a)
             else (2 ^ 23 + uint (fman a)) * 2 ^ (unat (fexp a) - 1))"

definition fval :: "f32 \<Rightarrow> int" where
  "fval a = (if fsign a then - fmag a else fmag a)"

definition qnan :: f32 where
  "qnan = F32 True 255 (2 ^ 22)"

definition finf :: "bool \<Rightarrow> f32" where
  "finf s = F32 s 255 0"

definition fzero :: "bool \<Rightarrow> f32" where
  "fzero s = F32 s 0 0"

text \<open>Number of binary digits of a positive integer.\<close>

function bitlen :: "int \<Rightarrow> nat" where
  "bitlen n = (if n \<le> 0 then 0 else Suc (bitlen (n div 2)))"
  by pat_completeness auto
termination
  by (relation "measure nat") auto

declare bitlen.simps [simp del]

text \<open>Integer square root (floor), two bits of the argument per step.\<close>

function isqrt :: "int \<Rightarrow> int" where
  "isqrt n = (if n < 1 then 0
              else (let r = 2 * isqrt (n div 4) in if (r + 1) * (r + 1) \<le> n then r + 1 else r))"
  by pat_completeness auto
termination
  by (relation "measure nat") auto

declare isqrt.simps [simp del]

text \<open>The quotient \<open>n / d\<close> rounded to the nearest integer, ties to the even one.\<close>

definition rne_div :: "int \<Rightarrow> int \<Rightarrow> int" where
  "rne_div n d = (let q = n div d; r = n mod d in
     if 2 * r < d then q else if d < 2 * r then q + 1
     else if even q then q else q + 1)"

text \<open>
  The float of sign \<open>s\<close> and magnitude \<open>m\<close> (in units of \<open>2^-149\<close>), for a magnitude
  that needs at most 24 significant bits; from \<open>2^277\<close> (that is \<open>2^128\<close>) on the
  result is an infinity.
\<close>

definition fenc :: "bool \<Rightarrow> int \<Rightarrow> f32" where
  "fenc s m = (if m < 2 ^ 23 then F32 s 0 (word_of_int m)
               else if 2 ^ 277 \<le> m then finf s
               else (let e = bitlen m - 24 in F32 s (of_nat (e + 1)) (word_of_int (m div 2 ^ e))))"

text \<open>
  Rounding of the exact magnitude \<open>n / d\<close> (in units of \<open>2^-149\<close>): below \<open>2^24\<close>
  the spacing of floats is one unit, above it the quotient is cut to 24 bits.
\<close>

definition fround :: "bool \<Rightarrow> int \<Rightarrow> int \<Rightarrow> f32" where
  "fround s n d = (let e = bitlen (n div d) - 24 in fenc s (rne_div n (d * 2 ^ e) * 2 ^ e))"

text \<open>A decimal literal \<open>n / d\<close> of the source, such as \<open>0.1f\<close> or \<open>90\<close>.\<close>

definition f32_lit :: "bool \<Rightarrow> int \<Rightarrow> int \<Rightarrow> f32" where
  "f32_lit s n d = fround s (n * 2 ^ 149) d"

text \<open>Unary minus flips the sign bit.\<close>

definition fneg :: "f32 \<Rightarrow> f32" where
  "fneg a = F32 (\<not> fsign a) (fexp a) (fman a)"

text \<open>Making a NaN quiet sets the top bit of its fraction.\<close>

definition fquiet :: "f32 \<Rightarrow> f32" where
  "fquiet a = F32 (fsign a) (fexp a) (fman a OR 2 ^ 22)"

text \<open>
  The NaN that an operation with a NaN operand returns. With one NaN operand it is that
  operand. With two, the instruction returns its first source operand: for a difference
  and a quotient that is the first operand of the expression (\<open>nan_first\<close>). A sum and a
  product are commutative for the compiler, which is free to order the two operands, so
  the source does not say which NaN comes back; \<open>nan_either\<close> takes the one with the
  larger fraction (the sign bit deciding between equal fractions), a choice that does not
  depend on the order of the operands.
\<close>

definition nan_first :: "f32 \<Rightarrow> f32 \<Rightarrow> f32" where
  "nan_first a b = fquiet (if is_nan a then a else b)"

definition nan_key :: "f32 \<Rightarrow> int" where
  "nan_key a = 2 * uint (fman a) + (if fsign a then 1 else 0)"

definition nan_either :: "f32 \<Rightarrow> f32 \<Rightarrow> f32" where
  "nan_either a b =
     fquiet (if is_nan a \<and> is_nan b then (if nan_key b \<le> nan_key a then a else b)
             else if is_nan a then a else b)"

definition fadd :: "f32 \<Rightarrow> f32 \<Rightarrow> f32" where
  "fadd a b =
     (if is_nan a \<or> is_nan b then nan_either a b
      else if is_inf a then (if is_inf b \<and> fsign a \<noteq> fsign b then qnan else a)
      else if is_inf b then b
      else if fval a + fval b = 0 then fzero (fsign a \<and> fsign b)
      else fround (fval a + fval b < 0) \<bar>fval a + fval b\<bar> 1)"

text \<open>
  A difference is the sum with the negated second operand, but for a NaN operand, which
  is returned with its own sign.
\<close>

definition fsub :: "f32 \<Rightarrow> f32 \<Rightarrow> f32" where
  "fsub a b = (if is_nan a \<or> is_nan b then nan_first a b else fadd a (fneg b))"

definition fmul :: "f32 \<Rightarrow> f32 \<Rightarrow> f32" where
  "fmul a b =
     (if is_nan a \<or> is_nan b then nan_either a b
      else if is_inf a \<or> is_inf b then
        (if (is_finite a \<and> fmag a = 0) \<or> (is_finite b \<and> fmag b = 0) then qnan
         else finf (fsign a \<noteq> fsign b))
      else fround (fsign a \<noteq> fsign b) (fmag a * fmag b) (2 ^ 149))"

definition fdiv :: "f32 \<Rightarrow> f32 \<Rightarrow> f32" where
  "fdiv a b =
     (if is_nan a \<or> is_nan b then nan_first a b
      else if is_inf a then (if is_inf b then qnan else finf (fsign a \<noteq> fsign b))
      else if is_inf b then fzero (fsign a \<noteq> fsign b)
      else if fmag b = 0 then (if fmag a = 0 then qnan else finf (fsign a \<noteq> fsign b))
      else fround (fsign a \<noteq> fsign b) (fmag a * 2 ^ 149) (fmag b))"

text \<open>
  \<open>sqrtf\<close> (the macro \<open>QM_SQRTF\<close>): the correctly rounded square root of IEEE-754.
  With \<open>n = fmag a * 2^149\<close> the root in units of \<open>2^-149\<close> is \<open>sqrt n\<close>, at least
  \<open>2^74\<close>; it is cut to 24 bits and rounded up when it lies above the midpoint. A NaN
  operand comes back quiet with its sign, as \<open>sqrtss\<close> returns it.
\<close>

definition fsqrt :: "f32 \<Rightarrow> f32" where
  "fsqrt a =
     (if is_nan a then fquiet a
      else if is_finite a \<and> fmag a = 0 then a
      else if fsign a then qnan
      else if is_inf a then a
      else (let n = fmag a * 2 ^ 149; e = bitlen (isqrt n) - 24; k = isqrt (n div 4 ^ e)
            in fenc False ((if (2 * k + 1) * (2 * k + 1) * 4 ^ e \<le> 4 * n then k + 1 else k) * 2 ^ e)))"

text \<open>
  Comparison. The sign-magnitude integer of the bit pattern orders all floats but NaN,
  with both zeros at 0; a comparison with a NaN operand is false, so \<open>!=\<close> is true.
\<close>

definition fkey :: "f32 \<Rightarrow> int" where
  "fkey a = (if fsign a then - (uint (fexp a) * 2 ^ 23 + uint (fman a))
             else uint (fexp a) * 2 ^ 23 + uint (fman a))"

definition feq :: "f32 \<Rightarrow> f32 \<Rightarrow> bool" where
  "feq a b = (\<not> is_nan a \<and> \<not> is_nan b \<and> fkey a = fkey b)"

definition fne :: "f32 \<Rightarrow> f32 \<Rightarrow> bool" where
  "fne a b = (\<not> feq a b)"

definition fle :: "f32 \<Rightarrow> f32 \<Rightarrow> bool" where
  "fle a b = (\<not> is_nan a \<and> \<not> is_nan b \<and> fkey a \<le> fkey b)"

definition flt :: "f32 \<Rightarrow> f32 \<Rightarrow> bool" where
  "flt a b = (\<not> is_nan a \<and> \<not> is_nan b \<and> fkey a < fkey b)"

text \<open>The float constants the source writes.\<close>

definition f_0 :: f32 where "f_0 = F32 False 0 0"
definition f_m0 :: f32 where "f_m0 = F32 True 0 0"
definition f_half :: f32 where "f_half = F32 False 126 0"
definition f_1 :: f32 where "f_1 = F32 False 127 0"
definition f_m1 :: f32 where "f_m1 = F32 True 127 0"
definition f_2 :: f32 where "f_2 = F32 False 128 0"
definition f_m2 :: f32 where "f_m2 = F32 True 128 0"
definition f_3 :: f32 where "f_3 = F32 False 128 (2 ^ 22)"

text \<open>The quiet NaN with the sign bit clear, \<open>0x7FC00000\<close>: the macro \<open>NAN\<close> of C.\<close>

definition f_nan :: f32 where "f_nan = F32 False 255 (2 ^ 22)"

section \<open>The SSE intrinsics the library uses\<close>

text \<open>An \<open>__m128\<close> register: four float lanes, lane 0 the lowest.\<close>

datatype m128 = M128 f32 f32 f32 f32

fun lane :: "m128 \<Rightarrow> nat \<Rightarrow> f32" where
  "lane (M128 a b c d) i = (if i = 0 then a else if i = 1 then b else if i = 2 then c else d)"

fun mm_map2 :: "(f32 \<Rightarrow> f32 \<Rightarrow> f32) \<Rightarrow> m128 \<Rightarrow> m128 \<Rightarrow> m128" where
  "mm_map2 f (M128 a0 a1 a2 a3) (M128 b0 b1 b2 b3) = M128 (f a0 b0) (f a1 b1) (f a2 b2) (f a3 b3)"

definition mm_add_ps :: "m128 \<Rightarrow> m128 \<Rightarrow> m128" where
  "mm_add_ps = mm_map2 fadd"

definition mm_sub_ps :: "m128 \<Rightarrow> m128 \<Rightarrow> m128" where
  "mm_sub_ps = mm_map2 fsub"

definition mm_mul_ps :: "m128 \<Rightarrow> m128 \<Rightarrow> m128" where
  "mm_mul_ps = mm_map2 fmul"

definition mm_div_ps :: "m128 \<Rightarrow> m128 \<Rightarrow> m128" where
  "mm_div_ps = mm_map2 fdiv"

text \<open>\<open>_mm_xor_ps\<close>: the bitwise exclusive or of the 32 bits of each lane.\<close>

definition fxor :: "f32 \<Rightarrow> f32 \<Rightarrow> f32" where
  "fxor a b = F32 (fsign a \<noteq> fsign b) (fexp a XOR fexp b) (fman a XOR fman b)"

definition mm_xor_ps :: "m128 \<Rightarrow> m128 \<Rightarrow> m128" where
  "mm_xor_ps = mm_map2 fxor"

definition mm_set1_ps :: "f32 \<Rightarrow> m128" where
  "mm_set1_ps s = M128 s s s s"

definition mm_setr_ps :: "f32 \<Rightarrow> f32 \<Rightarrow> f32 \<Rightarrow> f32 \<Rightarrow> m128" where
  "mm_setr_ps a b c d = M128 a b c d"

text \<open>\<open>_MM_SHUFFLE(z, y, x, w)\<close> is \<open>(z << 6) | (y << 4) | (x << 2) | w\<close>.\<close>

definition MM_SHUFFLE :: "nat \<Rightarrow> nat \<Rightarrow> nat \<Rightarrow> nat \<Rightarrow> nat" where
  "MM_SHUFFLE z y x w = push_bit 6 z OR push_bit 4 y OR push_bit 2 x OR w"

text \<open>
  \<open>_mm_shuffle_ps(a, b, imm)\<close>: lanes 0 and 1 are picked from \<open>a\<close> by bits 1:0 and
  3:2 of \<open>imm\<close>, lanes 2 and 3 from \<open>b\<close> by bits 5:4 and 7:6.
\<close>

definition mm_shuffle_ps :: "m128 \<Rightarrow> m128 \<Rightarrow> nat \<Rightarrow> m128" where
  "mm_shuffle_ps a b imm =
     M128 (lane a (imm AND 3)) (lane a (drop_bit 2 imm AND 3))
          (lane b (drop_bit 4 imm AND 3)) (lane b (drop_bit 6 imm AND 3))"

text \<open>\<open>_mm_hadd_ps\<close> (SSE3): sums of adjacent lanes, first of \<open>a\<close>, then of \<open>b\<close>.\<close>

fun mm_hadd_ps :: "m128 \<Rightarrow> m128 \<Rightarrow> m128" where
  "mm_hadd_ps (M128 a0 a1 a2 a3) (M128 b0 b1 b2 b3) =
     M128 (fadd a0 a1) (fadd a2 a3) (fadd b0 b1) (fadd b2 b3)"

text \<open>\<open>_mm_store_ss\<close> stores lane 0.\<close>

definition mm_store_ss :: "m128 \<Rightarrow> f32" where
  "mm_store_ss r = lane r 0"

section \<open>The value types\<close>

text \<open>
  The unions \<open>QMvec2\<close>, \<open>QMvec3\<close>, \<open>QMvec4\<close>, \<open>QMmat4\<close> and \<open>QMquaternion\<close>. A
  default-constructed value is all \<open>0.0f\<close> (the member initialiser \<open>= {}\<close>). The member
  \<open>packed\<close> views the four floats of a \<open>QMvec4\<close> or \<open>QMquaternion\<close> as one register
  and \<open>packed[i]\<close> views column \<open>i\<close> of a \<open>QMmat4\<close>; \<open>m.m[i][j]\<close> is component \<open>j\<close> of
  column \<open>i\<close>.
\<close>

datatype QMvec2 = QMvec2 (v2x: f32) (v2y: f32)

datatype QMvec3 = QMvec3 (v3x: f32) (v3y: f32) (v3z: f32)

datatype QMvec4 = QMvec4 (v4x: f32) (v4y: f32) (v4z: f32) (v4w: f32)

datatype QMquaternion = QMquaternion (qx: f32) (qy: f32) (qz: f32) (qw: f32)

datatype QMmat4 = QMmat4 (col0: QMvec4) (col1: QMvec4) (col2: QMvec4) (col3: QMvec4)

definition QMvec2_default :: QMvec2 where
  "QMvec2_default = QMvec2 f_0 f_0"

definition QMvec3_default :: QMvec3 where
  "QMvec3_default = QMvec3 f_0 f_0 f_0"

definition QMvec4_default :: QMvec4 where
  "QMvec4_default = QMvec4 f_0 f_0 f_0 f_0"

definition QMquaternion_default :: QMquaternion where
  "QMquaternion_default = QMquaternion f_0 f_0 f_0 f_0"

fun vec4_packed :: "QMvec4 \<Rightarrow> m128" where
  "vec4_packed (QMvec4 x y z w) = M128 x y z w"

fun vec4_of_packed :: "m128 \<Rightarrow> QMvec4" where
  "vec4_of_packed (M128 x y z w) = QMvec4 x y z w"

fun quat_packed :: "QMquaternion \<Rightarrow> m128" where
  "quat_packed (QMquaternion x y z w) = M128 x y z w"

fun quat_of_packed :: "m128 \<Rightarrow> QMquaternion" where
  "quat_of_packed (M128 x y z w) = QMquaternion x y z w"

text \<open>\<open>m.m[i][j]\<close>, for \<open>i\<close> and \<open>j\<close> from 0 to 3.\<close>

definition mat4_col :: "QMmat4 \<Rightarrow> nat \<Rightarrow> QMvec4" where
  "mat4_col m i = (if i = 0 then col0 m else if i = 1 then col1 m else if i = 2 then col2 m else col3 m)"

definition mat4_m :: "QMmat4 \<Rightarrow> nat \<Rightarrow> nat \<Rightarrow> f32" where
  "mat4_m m i j = lane (vec4_packed (mat4_col m i)) j"

section \<open>Vector functions\<close>

text \<open>
  The header is compiled as shipped, with \<open>#define QM_USE_SSE 1\<close>: where a function has an
  \<open>#if QM_USE_SSE\<close> branch, that branch is the function. The \<open>#else\<close> branch is modelled
  too, under a name ending in \<open>_noSSE\<close>, where the two are compared.
\<close>

text \<open>\<open>operator+\<close> and \<open>operator-\<close> on vectors.\<close>

definition vec2_add :: "QMvec2 \<Rightarrow> QMvec2 \<Rightarrow> QMvec2" where
  "vec2_add v1 v2 = QMvec2 (fadd (v2x v1) (v2x v2)) (fadd (v2y v1) (v2y v2))"

definition vec3_add :: "QMvec3 \<Rightarrow> QMvec3 \<Rightarrow> QMvec3" where
  "vec3_add v1 v2 = QMvec3 (fadd (v3x v1) (v3x v2)) (fadd (v3y v1) (v3y v2)) (fadd (v3z v1) (v3z v2))"

definition vec4_add :: "QMvec4 \<Rightarrow> QMvec4 \<Rightarrow> QMvec4" where
  "vec4_add v1 v2 = vec4_of_packed (mm_add_ps (vec4_packed v1) (vec4_packed v2))"

definition vec2_sub :: "QMvec2 \<Rightarrow> QMvec2 \<Rightarrow> QMvec2" where
  "vec2_sub v1 v2 = QMvec2 (fsub (v2x v1) (v2x v2)) (fsub (v2y v1) (v2y v2))"

definition vec3_sub :: "QMvec3 \<Rightarrow> QMvec3 \<Rightarrow> QMvec3" where
  "vec3_sub v1 v2 = QMvec3 (fsub (v3x v1) (v3x v2)) (fsub (v3y v1) (v3y v2)) (fsub (v3z v1) (v3z v2))"

definition vec4_sub :: "QMvec4 \<Rightarrow> QMvec4 \<Rightarrow> QMvec4" where
  "vec4_sub v1 v2 = vec4_of_packed (mm_sub_ps (vec4_packed v1) (vec4_packed v2))"

text \<open>\<open>operator/(QMvecn, float)\<close>\<close>

definition vec2_div_s :: "QMvec2 \<Rightarrow> f32 \<Rightarrow> QMvec2" where
  "vec2_div_s v s = QMvec2 (fdiv (v2x v) s) (fdiv (v2y v) s)"

definition vec3_div_s :: "QMvec3 \<Rightarrow> f32 \<Rightarrow> QMvec3" where
  "vec3_div_s v s = QMvec3 (fdiv (v3x v) s) (fdiv (v3y v) s) (fdiv (v3z v) s)"

definition vec4_div_s :: "QMvec4 \<Rightarrow> f32 \<Rightarrow> QMvec4" where
  "vec4_div_s v s = (let scale = mm_set1_ps s in vec4_of_packed (mm_div_ps (vec4_packed v) scale))"

text \<open>\<open>operator==\<close> on vectors: the components compared with \<open>==\<close>, joined by \<open>&&\<close>.\<close>

definition vec2_eq :: "QMvec2 \<Rightarrow> QMvec2 \<Rightarrow> bool" where
  "vec2_eq v1 v2 = (feq (v2x v1) (v2x v2) \<and> feq (v2y v1) (v2y v2))"

definition vec3_eq :: "QMvec3 \<Rightarrow> QMvec3 \<Rightarrow> bool" where
  "vec3_eq v1 v2 = (feq (v3x v1) (v3x v2) \<and> feq (v3y v1) (v3y v2) \<and> feq (v3z v1) (v3z v2))"

definition vec4_eq :: "QMvec4 \<Rightarrow> QMvec4 \<Rightarrow> bool" where
  "vec4_eq v1 v2 = (feq (v4x v1) (v4x v2) \<and> feq (v4y v1) (v4y v2) \<and> feq (v4z v1) (v4z v2)
                    \<and> feq (v4w v1) (v4w v2))"

text \<open>\<open>QM_dot\<close>: a left-to-right sum in dimensions 2 and 3, two horizontal adds in dimension 4.\<close>

definition QM_dot_vec2 :: "QMvec2 \<Rightarrow> QMvec2 \<Rightarrow> f32" where
  "QM_dot_vec2 v1 v2 = fadd (fmul (v2x v1) (v2x v2)) (fmul (v2y v1) (v2y v2))"

definition QM_dot_vec3 :: "QMvec3 \<Rightarrow> QMvec3 \<Rightarrow> f32" where
  "QM_dot_vec3 v1 v2 =
     fadd (fadd (fmul (v3x v1) (v3x v2)) (fmul (v3y v1) (v3y v2))) (fmul (v3z v1) (v3z v2))"

definition QM_dot_vec4 :: "QMvec4 \<Rightarrow> QMvec4 \<Rightarrow> f32" where
  "QM_dot_vec4 v1 v2 =
     (let r = mm_mul_ps (vec4_packed v1) (vec4_packed v2);
          r = mm_hadd_ps r r;
          r = mm_hadd_ps r r
      in mm_store_ss r)"

definition QM_length_vec2 :: "QMvec2 \<Rightarrow> f32" where
  "QM_length_vec2 v = fsqrt (QM_dot_vec2 v v)"

definition QM_length_vec3 :: "QMvec3 \<Rightarrow> f32" where
  "QM_length_vec3 v = fsqrt (QM_dot_vec3 v v)"

definition QM_length_vec4 :: "QMvec4 \<Rightarrow> f32" where
  "QM_length_vec4 v = fsqrt (QM_dot_vec4 v v)"

text \<open>
  \<open>QM_normalize\<close>. In dimensions 2 and 3 the quotient is assigned under
  \<open>if(len != 0.0f)\<close> and the default-constructed \<open>result\<close> is returned otherwise; in
  dimension 4 the source has the assignment without the \<open>if\<close>.
\<close>

definition QM_normalize_vec2 :: "QMvec2 \<Rightarrow> QMvec2" where
  "QM_normalize_vec2 v =
     (let result = QMvec2_default; len = QM_length_vec2 v
      in if fne len f_0 then vec2_div_s v len else result)"

definition QM_normalize_vec3 :: "QMvec3 \<Rightarrow> QMvec3" where
  "QM_normalize_vec3 v =
     (let result = QMvec3_default; len = QM_length_vec3 v
      in if fne len f_0 then vec3_div_s v len else result)"

definition QM_normalize_vec4 :: "QMvec4 \<Rightarrow> QMvec4" where
  "QM_normalize_vec4 v = (let len = QM_length_vec4 v in vec4_div_s v len)"

section \<open>Matrix functions\<close>

fun vec4_set :: "QMvec4 \<Rightarrow> nat \<Rightarrow> f32 \<Rightarrow> QMvec4" where
  "vec4_set (QMvec4 x y z w) j v =
     (if j = 0 then QMvec4 v y z w else if j = 1 then QMvec4 x v z w
      else if j = 2 then QMvec4 x y v w else QMvec4 x y z v)"

text \<open>The assignment \<open>result.m[i][j] = v\<close>.\<close>

fun mat4_set :: "QMmat4 \<Rightarrow> nat \<Rightarrow> nat \<Rightarrow> f32 \<Rightarrow> QMmat4" where
  "mat4_set (QMmat4 c0 c1 c2 c3) i j v =
     (if i = 0 then QMmat4 (vec4_set c0 j v) c1 c2 c3
      else if i = 1 then QMmat4 c0 (vec4_set c1 j v) c2 c3
      else if i = 2 then QMmat4 c0 c1 (vec4_set c2 j v) c3
      else QMmat4 c0 c1 c2 (vec4_set c3 j v))"

text \<open>\<open>QMmat4 result = {0};\<close>\<close>

definition QMmat4_zero :: QMmat4 where
  "QMmat4_zero = QMmat4 QMvec4_default QMvec4_default QMvec4_default QMvec4_default"

definition QM_mat4_identity :: QMmat4 where
  "QM_mat4_identity =
     QMmat4 (QMvec4 f_1 f_0 f_0 f_0) (QMvec4 f_0 f_1 f_0 f_0)
            (QMvec4 f_0 f_0 f_1 f_0) (QMvec4 f_0 f_0 f_0 f_1)"

text \<open>
  \<open>QM_mat4_mult_column_sse(c1, m2)\<close>: each lane of \<open>c1\<close> is broadcast and multiplied with
  a column of \<open>m2\<close>, and the four products are added from the left.
\<close>

definition QM_mat4_mult_column_sse :: "m128 \<Rightarrow> QMmat4 \<Rightarrow> m128" where
  "QM_mat4_mult_column_sse c1 m2 =
     (let result = mm_mul_ps (mm_shuffle_ps c1 c1 (MM_SHUFFLE 0 0 0 0)) (vec4_packed (col0 m2));
          result = mm_add_ps result
                     (mm_mul_ps (mm_shuffle_ps c1 c1 (MM_SHUFFLE 1 1 1 1)) (vec4_packed (col1 m2)));
          result = mm_add_ps result
                     (mm_mul_ps (mm_shuffle_ps c1 c1 (MM_SHUFFLE 2 2 2 2)) (vec4_packed (col2 m2)));
          result = mm_add_ps result
                     (mm_mul_ps (mm_shuffle_ps c1 c1 (MM_SHUFFLE 3 3 3 3)) (vec4_packed (col3 m2)))
      in result)"




text \<open>\<open>operator*(QMmat4, QMvec4)\<close>\<close>

definition mat4_mul_vec4 :: "QMmat4 \<Rightarrow> QMvec4 \<Rightarrow> QMvec4" where
  "mat4_mul_vec4 m v = vec4_of_packed (QM_mat4_mult_column_sse (vec4_packed v) m)"

text \<open>\<open>QM_translate(QMvec3)\<close>\<close>

definition QM_translate_vec3 :: "QMvec3 \<Rightarrow> QMmat4" where
  "QM_translate_vec3 t =
     (let result = QM_mat4_identity;
          result = mat4_set result 3 0 (v3x t);
          result = mat4_set result 3 1 (v3y t);
          result = mat4_set result 3 2 (v3z t)
      in result)"

text \<open>\<open>QM_deg_to_rad\<close>: \<open>deg * 0.01745329251f\<close>.\<close>

definition QM_deg_to_rad :: "f32 \<Rightarrow> f32" where
  "QM_deg_to_rad deg = fmul deg (f32_lit False 1745329251 100000000000)"

text \<open>
  \<open>QM_perspective\<close>. \<open>QM_TANF\<close> is a macro the user of the header may redefine (it is
  \<open>tanf\<close> of the C library as shipped); the model takes it as the parameter \<open>tanf\<close>.
\<close>

definition QM_perspective :: "(f32 \<Rightarrow> f32) \<Rightarrow> f32 \<Rightarrow> f32 \<Rightarrow> f32 \<Rightarrow> f32 \<Rightarrow> QMmat4" where
  "QM_perspective tanf fov aspect near far =
     (let result = QMmat4_zero;
          scale = fmul (tanf (QM_deg_to_rad (fmul fov f_half))) near;
          right = fmul aspect scale;
          left = fneg right;
          top = scale;
          bot = fneg top;
          result = mat4_set result 0 0 (fdiv near right);
          result = mat4_set result 1 1 (fdiv near top);
          result = mat4_set result 2 2 (fdiv (fneg (fadd far near)) (fsub far near));
          result = mat4_set result 3 2 (fdiv (fmul (fmul f_m2 far) near) (fsub far near));
          result = mat4_set result 2 3 f_m1
      in result)"

section \<open>Quaternion functions\<close>

text \<open>\<open>QM_dot(QMquaternion, QMquaternion)\<close>: a lane product and two horizontal adds.\<close>

definition QM_dot_quat :: "QMquaternion \<Rightarrow> QMquaternion \<Rightarrow> f32" where
  "QM_dot_quat q1 q2 =
     (let r = mm_mul_ps (quat_packed q1) (quat_packed q2);
          r = mm_hadd_ps r r;
          r = mm_hadd_ps r r
      in mm_store_ss r)"

definition QM_length_quat :: "QMquaternion \<Rightarrow> f32" where
  "QM_length_quat q = fsqrt (QM_dot_quat q q)"

text \<open>\<open>operator/(QMquaternion, float)\<close>\<close>

definition quat_div_s :: "QMquaternion \<Rightarrow> f32 \<Rightarrow> QMquaternion" where
  "quat_div_s q s = (let scale = mm_set1_ps s in quat_of_packed (mm_div_ps (quat_packed q) scale))"

text \<open>\<open>operator*(QMquaternion, float)\<close>\<close>

definition quat_mul_s :: "QMquaternion \<Rightarrow> f32 \<Rightarrow> QMquaternion" where
  "quat_mul_s q s = (let scale = mm_set1_ps s in quat_of_packed (mm_mul_ps (quat_packed q) scale))"

text \<open>\<open>operator+(QMquaternion, QMquaternion)\<close>\<close>

definition quat_add :: "QMquaternion \<Rightarrow> QMquaternion \<Rightarrow> QMquaternion" where
  "quat_add q1 q2 = quat_of_packed (mm_add_ps (quat_packed q1) (quat_packed q2))"

text \<open>\<open>operator==(QMquaternion, QMquaternion)\<close>\<close>

definition quat_eq :: "QMquaternion \<Rightarrow> QMquaternion \<Rightarrow> bool" where
  "quat_eq q1 q2 = (feq (qx q1) (qx q2) \<and> feq (qy q1) (qy q2) \<and> feq (qz q1) (qz q2) \<and> feq (qw q1) (qw q2))"

definition QM_conjugate :: "QMquaternion \<Rightarrow> QMquaternion" where
  "QM_conjugate q = QMquaternion (fneg (qx q)) (fneg (qy q)) (fneg (qz q)) (qw q)"

text \<open>
  \<open>QM_inverse(QMquaternion)\<close>. The source computes the quotient
  \<open>_mm_div_ps(result.packed, scale)\<close> as a statement of its own: the value is not
  assigned to anything, and \<open>result\<close> is returned as the four assignments left it.
\<close>

definition QM_inverse_quat :: "QMquaternion \<Rightarrow> QMquaternion" where
  "QM_inverse_quat q =
     (let result = QMquaternion (fneg (qx q)) (fneg (qy q)) (fneg (qz q)) (qw q);
          scale = mm_set1_ps (QM_dot_quat q q);
          unused = mm_div_ps (quat_packed result) scale
      in result)"

text \<open>
  What the specification asks of \<open>inverse\<close>, in its words: the conjugate with every
  component scaled by the reciprocal of the squared length, \<open>1 / dot(q, q)\<close>.
\<close>

definition spec_inverse_quat :: "QMquaternion \<Rightarrow> QMquaternion" where
  "spec_inverse_quat q = quat_mul_s (QM_conjugate q) (fdiv f_1 (QM_dot_quat q q))"

text \<open>
  \<open>QM_normalize(QMquaternion)\<close>: the quotient is assigned under \<open>if(len != 0.0f)\<close>, in
  every configuration (the function has no \<open>#if\<close>).
\<close>

definition QM_normalize_quat :: "QMquaternion \<Rightarrow> QMquaternion" where
  "QM_normalize_quat q =
     (let result = QMquaternion_default; len = QM_length_quat q
      in if fne len f_0 then quat_div_s q len else result)"

text \<open>
  \<open>operator*(QMquaternion, QMquaternion)\<close>, the compiled branch: four broadcasts of the
  components of \<open>q1\<close>, three of them with sign bits flipped by \<open>_mm_xor_ps\<close>, multiplied
  with shuffles of \<open>q2\<close> and added from the left.
\<close>

definition quat_mul :: "QMquaternion \<Rightarrow> QMquaternion \<Rightarrow> QMquaternion" where
  "quat_mul q1 q2 =
     (let p1 = quat_packed q1; p2 = quat_packed q2;
          temp1 = mm_shuffle_ps p1 p1 (MM_SHUFFLE 3 3 3 3);
          temp2 = p2;
          result = mm_mul_ps temp1 temp2;
          temp1 = mm_xor_ps (mm_shuffle_ps p1 p1 (MM_SHUFFLE 0 0 0 0)) (mm_setr_ps f_0 f_m0 f_0 f_m0);
          temp2 = mm_shuffle_ps p2 p2 (MM_SHUFFLE 0 1 2 3);
          result = mm_add_ps result (mm_mul_ps temp1 temp2);
          temp1 = mm_xor_ps (mm_shuffle_ps p1 p1 (MM_SHUFFLE 1 1 1 1)) (mm_setr_ps f_0 f_0 f_m0 f_m0);
          temp2 = mm_shuffle_ps p2 p2 (MM_SHUFFLE 1 0 3 2);
          result = mm_add_ps result (mm_mul_ps temp1 temp2);
          temp1 = mm_xor_ps (mm_shuffle_ps p1 p1 (MM_SHUFFLE 2 2 2 2)) (mm_setr_ps f_m0 f_0 f_0 f_m0);
          temp2 = mm_shuffle_ps p2 p2 (MM_SHUFFLE 2 3 0 1);
          result = mm_add_ps result (mm_mul_ps temp1 temp2)
      in quat_of_packed result)"

text \<open>The \<open>#else\<close> branch of \<open>operator*(QMquaternion, QMquaternion)\<close>.\<close>

definition quat_mul_noSSE :: "QMquaternion \<Rightarrow> QMquaternion \<Rightarrow> QMquaternion" where
  "quat_mul_noSSE q1 q2 =
     QMquaternion
       (fsub (fadd (fadd (fmul (qw q1) (qx q2)) (fmul (qx q1) (qw q2))) (fmul (qy q1) (qz q2)))
             (fmul (qz q1) (qy q2)))
       (fadd (fadd (fsub (fmul (qw q1) (qy q2)) (fmul (qx q1) (qz q2))) (fmul (qy q1) (qw q2)))
             (fmul (qz q1) (qx q2)))
       (fadd (fsub (fadd (fmul (qw q1) (qz q2)) (fmul (qx q1) (qy q2))) (fmul (qy q1) (qx q2)))
             (fmul (qz q1) (qw q2)))
       (fsub (fsub (fsub (fmul (qw q1) (qw q2)) (fmul (qx q1) (qx q2))) (fmul (qy q1) (qy q2)))
             (fmul (qz q1) (qz q2)))"

text \<open>
  \<open>QM_slerp\<close>. \<open>QM_SINF\<close> and \<open>QM_ACOSF\<close> are macros the user of the header may redefine
  (\<open>sinf\<close> and \<open>acosf\<close> of the C library as shipped); the model takes them as parameters.
\<close>

definition QM_slerp :: "(f32 \<Rightarrow> f32) \<Rightarrow> (f32 \<Rightarrow> f32) \<Rightarrow> QMquaternion \<Rightarrow> QMquaternion \<Rightarrow> f32 \<Rightarrow> QMquaternion" where
  "QM_slerp sinf acosf q1 q2 a =
     (let cosine = QM_dot_quat q1 q2;
          angle = acosf cosine;
          sine1 = sinf (fmul (fsub f_1 a) angle);
          sine2 = sinf (fmul a angle);
          invSine = fdiv f_1 (sinf angle);
          q1scaled = quat_mul_s q1 sine1;
          q2scaled = quat_mul_s q2 sine2;
          result = quat_add q1scaled q2scaled;
          result = quat_mul_s result invSine
      in result)"

section \<open>The C library and exact sums\<close>

text \<open>
  \<open>QM_SINF\<close>, \<open>QM_ACOSF\<close> and \<open>QM_TANF\<close> are \<open>sinf\<close>, \<open>acosf\<close> and \<open>tanf\<close> of the C
  library. The C standard (Annex F.10.1) fixes their results at the special arguments:
  \<open>acos(1) = +0\<close>, \<open>acos(x)\<close> is NaN for \<open>x > 1\<close>, \<open>sin(+0) = +0\<close>, \<open>sin(-0) = -0\<close>, and
  a NaN argument gives a NaN. \<open>libm_special\<close> says that a pair of functions has these
  values; nothing else is assumed of \<open>sinf\<close> and \<open>acosf\<close>.
\<close>

definition libm_special :: "(f32 \<Rightarrow> f32) \<Rightarrow> (f32 \<Rightarrow> f32) \<Rightarrow> bool" where
  "libm_special sinf acosf =
     (acosf f_1 = f_0 \<and> (\<forall>x. flt f_1 x \<longrightarrow> is_nan (acosf x))
      \<and> sinf f_0 = f_0 \<and> sinf f_m0 = f_m0 \<and> (\<forall>x. is_nan x \<longrightarrow> is_nan (sinf x)))"

text \<open>
  Three functions that have the C library's values at the arguments the closed theorems
  below reach, and are not meant as the library elsewhere (they return NaN there):
  \<open>acosf\<close> at 1 and outside \<open>[-1, 1]\<close>, \<open>sinf\<close> at the zeros and at NaN, and \<open>tanf\<close> at
  the zeros and at \<open>0x3F490FDB\<close>, the float \<open>QM_deg_to_rad(45)\<close>, whose tangent
  \<open>1.00000004\<close> has \<open>1.0f\<close> as its nearest float.
\<close>

definition acosf_special :: "f32 \<Rightarrow> f32" where
  "acosf_special x = (if x = f_1 then f_0 else qnan)"

definition sinf_special :: "f32 \<Rightarrow> f32" where
  "sinf_special x = (if is_finite x \<and> fmag x = 0 then x else qnan)"

definition tanf_special :: "f32 \<Rightarrow> f32" where
  "tanf_special x = (if is_finite x \<and> fmag x = 0 then x
                     else if x = F32 False 126 4788187 then f_1 else qnan)"

text \<open>Two floats that are the same, or both NaN (of whatever sign and payload).\<close>

definition nan_eq :: "f32 \<Rightarrow> f32 \<Rightarrow> bool" where
  "nan_eq a b = (a = b \<or> (is_nan a \<and> is_nan b))"

text \<open>A float that is not a NaN, or is the default NaN.\<close>

definition nan_default :: "f32 \<Rightarrow> bool" where
  "nan_default a = (is_nan a \<longrightarrow> a = qnan)"

text \<open>A float that is a NaN or a zero.\<close>

definition nan_or_zero :: "f32 \<Rightarrow> bool" where
  "nan_or_zero x = (is_nan x \<or> (is_finite x \<and> fmag x = 0))"

text \<open>
  The sum \<open>a + b\<close> is exact: the operands and the float sum are finite, and the float sum
  is the sum of the two values, with no rounding.
\<close>

definition exact_add :: "f32 \<Rightarrow> f32 \<Rightarrow> bool" where
  "exact_add a b = (is_finite a \<and> is_finite b \<and> is_finite (fadd a b)
                    \<and> fval (fadd a b) = fval a + fval b)"

text \<open>The arguments of the call \<open>perspective(90, 1.0, 0.1, 100.0)\<close>, as floats.\<close>

definition f_90 :: f32 where "f_90 = f32_lit False 90 1"
definition f_0p1 :: f32 where "f_0p1 = f32_lit False 1 10"
definition f_100 :: f32 where "f_100 = f32_lit False 100 1"

section \<open>Properties of the float operations\<close>

text \<open>
  The model against results known from IEEE-754 hardware: \<open>0.1f\<close> is \<open>0x3DCCCCCD\<close>,
  \<open>0.1f + 0.2f\<close> is \<open>0x3E99999A\<close>, \<open>0.1f * 0.1f\<close> is \<open>0x3C23D70B\<close>, \<open>2 / 3\<close> is
  \<open>0x3F2AAAAB\<close>, \<open>sqrtf(2)\<close> is \<open>0x3FB504F3\<close>; half the smallest subnormal is a tie
  and rounds to 0, half of three times it rounds to twice it; \<open>FLT_MAX + FLT_MAX\<close>
  overflows to infinity; \<open>1 / 0\<close> is infinity and \<open>0 / 0\<close> is NaN.
\<close>

lemma f32_known_answers:
  "f32_lit False 1 10 = F32 False 123 5033165"
  "fadd (f32_lit False 1 10) (f32_lit False 2 10) = F32 False 125 1677722"
  "fmul (f32_lit False 1 10) (f32_lit False 1 10) = F32 False 120 2348811"
  "fdiv f_2 f_3 = F32 False 126 2796203"
  "fsqrt f_2 = F32 False 127 3474675"
  "fmul (F32 False 0 1) f_half = f_0"
  "fmul (F32 False 0 3) f_half = F32 False 0 2"
  "fadd (F32 False 254 (- 1)) (F32 False 254 (- 1)) = finf False"
  "fdiv f_1 f_0 = finf False"
  "fdiv f_0 f_0 = qnan"
  by code_simp+

lemma QM_inverse_quat_is_conjugate: "QM_inverse_quat q = QM_conjugate q"
  by (simp add: QM_inverse_quat_def QM_conjugate_def Let_def)

lemma bitlen_eqI: "2 ^ k \<le> n \<Longrightarrow> n < 2 ^ Suc k \<Longrightarrow> bitlen n = Suc k"
proof (induction k arbitrary: n)
  case 0
  then have "n = 1" by simp
  then show ?case by (simp add: bitlen.simps)
next
  case (Suc k)
  have "2 ^ k \<le> n div 2" using Suc.prems(1) by simp
  moreover have "n div 2 < 2 ^ Suc k" using Suc.prems(2) by simp
  ultimately have "bitlen (n div 2) = Suc k" by (rule Suc.IH)
  moreover have "0 < n" using Suc.prems(1) by (smt (verit) zero_less_power)
  ultimately show ?case by (subst bitlen.simps) simp
qed

lemma bitlen_le: "n < 2 ^ k \<Longrightarrow> bitlen n \<le> k"
proof (induction k arbitrary: n)
  case 0
  then show ?case by (simp add: bitlen.simps)
next
  case (Suc k)
  have "n div 2 < 2 ^ k" using Suc.prems by simp
  then have "bitlen (n div 2) \<le> k" by (rule Suc.IH)
  then show ?case by (subst bitlen.simps) simp
qed

lemma is_nan_fneg [simp]: "is_nan (fneg a) = is_nan a"
  by (simp add: is_nan_def fneg_def)

lemma is_inf_fneg [simp]: "is_inf (fneg a) = is_inf a"
  by (simp add: is_inf_def fneg_def)

lemma is_finite_fneg [simp]: "is_finite (fneg a) = is_finite a"
  by (simp add: is_finite_def fneg_def)

lemma fmag_fneg [simp]: "fmag (fneg a) = fmag a"
  by (simp add: fmag_def fneg_def)

lemma fsign_fneg [simp]: "fsign (fneg a) = (\<not> fsign a)"
  by (simp add: fneg_def)

lemma fneg_fneg [simp]: "fneg (fneg a) = a"
  by (cases a) (simp add: fneg_def)

lemma is_nan_qnan [simp]: "is_nan qnan"
  by (simp add: is_nan_def qnan_def)

lemma quiet_bit: "(m OR 2 ^ 22 :: 23 word) \<noteq> 0"
proof
  assume "m OR 2 ^ 22 = (0 :: 23 word)"
  then have "(2 ^ 22 :: 23 word) = 0" by (simp add: or_eq_0_iff)
  then show False by simp
qed

lemma is_nan_fquiet [simp]: "is_nan a \<Longrightarrow> is_nan (fquiet a)"
  using quiet_bit [of "fman a"] by (simp add: is_nan_def fquiet_def)

lemma fquiet_fquiet [simp]: "fquiet (fquiet a) = fquiet a"
  by (simp add: fquiet_def or.assoc)

lemma fquiet_qnan [simp]: "fquiet qnan = qnan"
  by (simp add: fquiet_def qnan_def)

lemma is_nan_nan_either [simp]: "is_nan a \<or> is_nan b \<Longrightarrow> is_nan (nan_either a b)"
  by (auto simp: nan_either_def)

lemma is_nan_nan_first [simp]: "is_nan a \<or> is_nan b \<Longrightarrow> is_nan (nan_first a b)"
  by (auto simp: nan_first_def)

lemma fquiet_nan_either [simp]: "fquiet (nan_either a b) = nan_either a b"
  by (simp add: nan_either_def)

lemma fquiet_nan_first [simp]: "fquiet (nan_first a b) = nan_first a b"
  by (simp add: nan_first_def)

lemma nan_key_inj:
  assumes "is_nan a" "is_nan b" "nan_key a = nan_key b"
  shows "a = b"
proof -
  have e: "fexp a = fexp b" using assms(1,2) by (simp add: is_nan_def)
  have "2 * uint (fman a) + (if fsign a then 1 else 0)
      = 2 * uint (fman b) + (if fsign b then 1 else (0::int))"
    using assms(3) by (simp add: nan_key_def)
  then have "uint (fman a) = uint (fman b) \<and> fsign a = fsign b"
    by (auto split: if_splits) presburger+
  then have "fman a = fman b \<and> fsign a = fsign b" by (simp add: word_uint_eq_iff)
  with e show ?thesis by (cases a; cases b) simp
qed

lemma nan_either_commute:
  assumes "is_nan a \<or> is_nan b"
  shows "nan_either a b = nan_either b a"
proof (cases "is_nan a \<and> is_nan b")
  case True
  then show ?thesis
    using nan_key_inj[of a b] by (cases "nan_key a = nan_key b") (auto simp: nan_either_def)
next
  case False
  with assms show ?thesis by (auto simp: nan_either_def)
qed

lemma nan_either_left: "is_nan a \<Longrightarrow> \<not> is_nan b \<Longrightarrow> nan_either a b = fquiet a"
  by (simp add: nan_either_def)

lemma nan_either_right: "\<not> is_nan a \<Longrightarrow> nan_either a b = fquiet b"
  by (simp add: nan_either_def)

lemma nan_first_left: "is_nan a \<Longrightarrow> nan_first a b = fquiet a"
  by (simp add: nan_first_def)

lemma nan_first_right: "\<not> is_nan a \<Longrightarrow> nan_first a b = fquiet b"
  by (simp add: nan_first_def)

lemma nan_either_default:
  "nan_default a \<Longrightarrow> nan_default b \<Longrightarrow> is_nan a \<or> is_nan b \<Longrightarrow> nan_either a b = qnan"
  by (auto simp: nan_either_def nan_default_def)

lemma nan_first_default:
  "nan_default a \<Longrightarrow> nan_default b \<Longrightarrow> is_nan a \<or> is_nan b \<Longrightarrow> nan_first a b = qnan"
  by (auto simp: nan_first_def nan_default_def)

lemma fmag_nonneg: "0 \<le> fmag a"
  by (simp add: fmag_def)



lemma of_nat_ne_255: "n < 255 \<Longrightarrow> (of_nat n :: 8 word) \<noteq> 255"
proof
  assume lt: "n < 255" and eq: "(of_nat n :: 8 word) = 255"
  from eq have "unat (of_nat n :: 8 word) = unat (255 :: 8 word)" by simp
  then have "n mod 256 = 255" by (simp add: unat_of_nat)
  with lt show False by simp
qed

lemma fenc_not_nan [simp]: "\<not> is_nan (fenc s m)"
proof -
  have "(of_nat (bitlen m - 24 + 1) :: 8 word) \<noteq> 255" if "m < 2 ^ 277"
  proof -
    have "bitlen m \<le> 277" using that by (rule bitlen_le)
    then have "bitlen m - 24 + 1 < 255" by simp
    then show ?thesis by (rule of_nat_ne_255)
  qed
  then show ?thesis
    by (auto simp: fenc_def is_nan_def finf_def Let_def)
qed

lemma fround_not_nan [simp]: "\<not> is_nan (fround s n d)"
  by (simp add: fround_def Let_def)

lemma fenc_fneg: "fneg (fenc s m) = fenc (\<not> s) m"
  by (simp add: fenc_def fneg_def finf_def Let_def)

lemma fround_fneg: "fneg (fround s n d) = fround (\<not> s) n d"
  by (simp add: fround_def Let_def fenc_fneg)


lemma is_nan_finf [simp]: "\<not> is_nan (finf s)"
  by (simp add: is_nan_def finf_def)

lemma is_nan_fzero [simp]: "\<not> is_nan (fzero s)"
  by (simp add: is_nan_def fzero_def)

lemma is_nan_fmul_operand: "is_nan a \<or> is_nan b \<Longrightarrow> is_nan (fmul a b)"
  by (simp add: fmul_def)

lemma is_nan_fadd_operand: "is_nan a \<or> is_nan b \<Longrightarrow> is_nan (fadd a b)"
  by (simp add: fadd_def)

lemma is_nan_fsub_operand: "is_nan a \<or> is_nan b \<Longrightarrow> is_nan (fsub a b)"
  by (simp add: fsub_def)

lemma is_nan_fdiv_operand: "is_nan a \<or> is_nan b \<Longrightarrow> is_nan (fdiv a b)"
  by (simp add: fdiv_def)

lemma fmul_nan_quiet: "is_nan (fmul a b) \<Longrightarrow> fquiet (fmul a b) = fmul a b"
  by (auto simp: fmul_def split: if_splits)

lemma fmul_commute: "fmul a b = fmul b a"
proof (cases "is_nan a \<or> is_nan b")
  case True
  then show ?thesis by (auto simp: fmul_def nan_either_commute)
next
  case False
  have s: "(fsign a \<noteq> fsign b) = (fsign b \<noteq> fsign a)" by auto
  show ?thesis unfolding fmul_def s using False by (simp add: mult.commute disj_commute)
qed

lemma fmul_fneg_left:
  assumes "\<not> is_nan a"
  shows "fmul (fneg a) b = (if is_nan (fmul a b) then fmul a b else fneg (fmul a b))"
proof (cases "is_nan b")
  case True
  with assms show ?thesis by (simp add: fmul_def nan_either_right)
next
  case False
  have s: "((\<not> fsign a) \<noteq> fsign b) = (\<not> (fsign a \<noteq> fsign b))" by auto
  show ?thesis
    unfolding fmul_def is_nan_fneg is_inf_fneg is_finite_fneg fmag_fneg fsign_fneg s
    using assms False by (simp add: fround_fneg) (simp add: finf_def fneg_def)
qed

lemma is_nan_fmul_fneg: "is_nan (fmul (fneg a) b) = is_nan (fmul a b)"
  by (simp add: fmul_def)

lemma fmul_fneg_fneg: "\<not> is_nan a \<Longrightarrow> \<not> is_nan b \<Longrightarrow> fmul (fneg a) (fneg b) = fmul a b"
  by (simp add: fmul_def)

lemma nan_default_fmul: "\<not> is_nan a \<Longrightarrow> \<not> is_nan b \<Longrightarrow> nan_default (fmul a b)"
  by (simp add: fmul_def nan_default_def)

lemma nan_default_fadd: "nan_default a \<Longrightarrow> nan_default b \<Longrightarrow> nan_default (fadd a b)"
proof (cases "is_nan a \<or> is_nan b")
  case True
  assume "nan_default a" "nan_default b"
  with True have "fadd a b = qnan" by (simp add: fadd_def nan_either_default)
  then show ?thesis by (simp add: nan_default_def)
next
  case False
  then show ?thesis by (auto simp: fadd_def nan_default_def)
qed

lemma nan_default_fsub: "nan_default a \<Longrightarrow> nan_default b \<Longrightarrow> nan_default (fsub a b)"
proof (cases "is_nan a \<or> is_nan b")
  case True
  assume "nan_default a" "nan_default b"
  with True have "fsub a b = qnan" by (simp add: fsub_def nan_first_default)
  then show ?thesis by (simp add: nan_default_def)
next
  case False
  assume "nan_default a" "nan_default b"
  moreover have "nan_default (fneg b)" using False by (simp add: nan_default_def)
  ultimately show ?thesis using False by (simp add: fsub_def nan_default_fadd)
qed

text \<open>
  Adding the product with a sign-flipped factor is subtracting the product, when the
  factors are not NaN and the other term is not a NaN with a payload.
\<close>

lemma fadd_fmul_fneg:
  assumes a: "\<not> is_nan a" and b: "\<not> is_nan b" and r: "nan_default r"
  shows "fadd r (fmul (fneg a) b) = fsub r (fmul a b)"
proof (cases "is_nan (fmul a b)")
  case True
  with nan_default_fmul [OF a b] have p: "fmul a b = qnan" by (simp add: nan_default_def)
  with True a have "fmul (fneg a) b = qnan" by (simp add: fmul_fneg_left)
  with p r show ?thesis
    by (simp add: fadd_def fsub_def nan_either_default nan_first_default nan_default_def)
next
  case False
  with a have n: "fmul (fneg a) b = fneg (fmul a b)" by (simp add: fmul_fneg_left)
  show ?thesis
  proof (cases "is_nan r")
    case True
    with False show ?thesis
      by (simp add: n fadd_def fsub_def nan_either_left nan_first_left)
  next
    case nr: False
    with False show ?thesis by (simp add: n fsub_def)
  qed
qed

lemma nan_eq_refl [simp]: "nan_eq a a"
  by (simp add: nan_eq_def)

lemma nan_eq_fadd: "nan_eq r r' \<Longrightarrow> nan_eq (fadd r p) (fadd r' p)"
  by (auto simp: nan_eq_def is_nan_fadd_operand)

lemma nan_eq_fadd_fsub:
  assumes "nan_eq r r'"
  shows "nan_eq (fadd r (fmul (fneg a) b)) (fsub r' (fmul a b))"
proof (cases "is_nan r \<or> is_nan (fmul a b)")
  case True
  then have "is_nan r \<and> is_nan r' \<or> is_nan (fmul (fneg a) b) \<and> is_nan (fmul a b)"
    using assms by (auto simp: nan_eq_def is_nan_fmul_fneg)
  then have "is_nan (fadd r (fmul (fneg a) b)) \<and> is_nan (fsub r' (fmul a b))"
    by (auto simp: is_nan_fadd_operand is_nan_fsub_operand)
  then show ?thesis by (simp add: nan_eq_def)
next
  case False
  then have nr: "\<not> is_nan r" and np: "\<not> is_nan (fmul a b)" by simp_all
  from nr assms have rr: "r' = r" by (auto simp: nan_eq_def)
  from np have "\<not> is_nan a" using is_nan_fmul_operand [of a b] by blast
  then have "fmul (fneg a) b = fneg (fmul a b)" using np by (simp add: fmul_fneg_left)
  then show ?thesis using nr np by (simp add: rr fsub_def)
qed

lemma fxor_f_0 [simp]: "fxor a f_0 = a"
  by (cases a) (simp add: fxor_def f_0_def)

lemma fxor_f_m0 [simp]: "fxor a f_m0 = fneg a"
  by (cases a) (simp add: fxor_def f_m0_def fneg_def)



lemma rne_div_exact: "0 < d \<Longrightarrow> rne_div (m * d) d = m"
  by (simp add: rne_div_def)


lemma fexp_bounds:
  assumes "is_finite a" "fexp a \<noteq> 0"
  shows "1 \<le> unat (fexp a) \<and> unat (fexp a) \<le> 254"
proof -
  have pos: "1 \<le> unat (fexp a)" using assms(2) by (simp add: Suc_le_eq unat_gt_0)
  have lt: "unat (fexp a) < 2 ^ LENGTH(8)" by (rule unsigned_less)
  have "unat (fexp a) \<noteq> 255"
  proof
    assume "unat (fexp a) = 255"
    then have "of_nat (unat (fexp a)) = (of_nat 255 :: 8 word)" by simp
    then have "fexp a = 255" by simp
    with assms(1) show False by (simp add: is_finite_def)
  qed
  with lt have "unat (fexp a) \<le> 254" by simp
  with pos show ?thesis by simp
qed

lemma fman_bounds: "0 \<le> uint (fman a) \<and> uint (fman a) < 2 ^ 23"
  using uint_bounded[of "fman a"] by simp

lemma word23_hidden: "(word_of_int (2 ^ 23 + uint f) :: 23 word) = f"
proof -
  have "(word_of_int (2 ^ 23 + uint f) :: 23 word) = word_of_int (2 ^ 23) + word_of_int (uint f)"
    by simp
  also have "(word_of_int (2 ^ 23) :: 23 word) = 0"
    using word_of_int_2p_len[where 'a = 23] by simp
  finally show ?thesis by simp
qed

lemma fround_fmag:
  assumes fin: "is_finite a" and d: "0 < d"
  shows "fround s (fmag a * d) d = F32 s (fexp a) (fman a)"
proof (cases "fexp a = 0")
  case True
  have m: "fmag a = uint (fman a)" using True by (simp add: fmag_def)
  have lt: "fmag a < 2 ^ 23" using m fman_bounds[of a] by simp
  then have "bitlen (fmag a) \<le> 23" by (rule bitlen_le)
  then have e: "bitlen (fmag a) - 24 = 0" by simp
  have "fround s (fmag a * d) d = fenc s (fmag a)"
    using d e by (simp add: fround_def Let_def rne_div_exact)
  also have "\<dots> = F32 s 0 (fman a)" using lt m by (simp add: fenc_def)
  finally show ?thesis using True by simp
next
  case False
  define k where "k = unat (fexp a) - 1"
  define f where "f = uint (fman a)"
  from fexp_bounds[OF fin False] have kb: "k \<le> 253" and ke: "unat (fexp a) = k + 1"
    unfolding k_def by linarith+
  have fb: "0 \<le> f" "f < 2 ^ 23" using fman_bounds[of a] by (simp_all add: f_def)
  have m: "fmag a = (2 ^ 23 + f) * 2 ^ k" using False by (simp add: fmag_def k_def f_def)
  have lo: "2 ^ (23 + k) \<le> fmag a"
    unfolding m power_add using fb by (intro mult_right_mono) simp_all
  have hi: "fmag a < 2 ^ Suc (23 + k)"
  proof -
    have "(2 ^ 23 + f) * 2 ^ k < (2 ^ 24) * (2 ^ k :: int)"
      using fb by (intro mult_strict_right_mono) simp_all
    then show ?thesis unfolding m by (simp add: power_add)
  qed
  have bl: "bitlen (fmag a) = Suc (23 + k)" using lo hi by (rule bitlen_eqI)
  then have e: "bitlen (fmag a) - 24 = k" by simp
  have r: "rne_div (fmag a * d) (d * 2 ^ k) = 2 ^ 23 + f"
  proof -
    have "fmag a * d = (2 ^ 23 + f) * (d * 2 ^ k)" unfolding m by (simp add: mult_ac)
    moreover have "0 < d * (2 ^ k :: int)" using d by simp
    ultimately show ?thesis by (simp only: rne_div_exact)
  qed
  have "fround s (fmag a * d) d = fenc s (fmag a)"
    using d e r m by (simp add: fround_def Let_def)
  also have "\<dots> = F32 s (of_nat (k + 1)) (word_of_int (fmag a div 2 ^ k))"
  proof -
    have "\<not> fmag a < 2 ^ 23"
    proof -
      have "(2::int) ^ 23 \<le> 2 ^ (23 + k)" by (rule power_increasing) simp_all
      with lo show ?thesis by simp
    qed
    moreover have "\<not> 2 ^ 277 \<le> fmag a"
    proof -
      have "(2::int) ^ Suc (23 + k) \<le> 2 ^ 277" using kb by (intro power_increasing) simp_all
      with hi show ?thesis by simp
    qed
    ultimately show ?thesis using e by (simp add: fenc_def Let_def)
  qed
  also have "fmag a div 2 ^ k = 2 ^ 23 + f" unfolding m by simp
  also have "(word_of_int (2 ^ 23 + f) :: 23 word) = fman a" unfolding f_def by (rule word23_hidden)
  also have "(of_nat (k + 1) :: 8 word) = fexp a" 
  proof -
    have "(of_nat (k + 1) :: 8 word) = of_nat (unat (fexp a))" using ke by simp
    then show ?thesis by simp
  qed
  finally show ?thesis .
qed

lemma dot_quat_conjugate:
  "\<not> is_nan (qx q) \<Longrightarrow> \<not> is_nan (qy q) \<Longrightarrow> \<not> is_nan (qz q) \<Longrightarrow>
     QM_dot_quat (QM_conjugate q) (QM_conjugate q) = QM_dot_quat q q"
  by (cases q)
    (simp add: QM_dot_quat_def QM_conjugate_def mm_mul_ps_def mm_store_ss_def Let_def fmul_fneg_fneg)

lemma feq_same: "feq a a = (\<not> is_nan a)"
  by (simp add: feq_def)

lemma is_finite_not_nan: "is_finite a \<Longrightarrow> \<not> is_nan a"
  by (simp add: is_finite_def is_nan_def)

lemma is_finite_not_inf: "is_finite a \<Longrightarrow> \<not> is_inf a"
  by (simp add: is_finite_def is_inf_def)

lemma fval_fneg [simp]: "fval (fneg a) = - fval a"
  by (simp add: fval_def)

lemma fmag_zero_fields:
  assumes "is_finite a" "fmag a = 0"
  shows "fexp a = 0 \<and> fman a = 0"
proof (cases "fexp a = 0")
  case True
  with assms(2) have "uint (fman a) = 0" by (simp add: fmag_def)
  then have "fman a = 0" by (simp only: uint_0_iff)
  with True show ?thesis by simp
next
  case False
  have "0 < 2 ^ 23 + uint (fman a)" by (rule add_pos_nonneg) simp_all
  then have "0 < (2 ^ 23 + uint (fman a)) * (2 :: int) ^ (unat (fexp a) - 1)"
    by (intro mult_pos_pos) simp_all
  with assms(2) False show ?thesis by (simp add: fmag_def)
qed

lemma fkey_zero: "is_finite a \<Longrightarrow> fmag a = 0 \<Longrightarrow> fkey a = 0"
  using fmag_zero_fields[of a] by (simp add: fkey_def)

lemma fround_self:
  assumes "is_finite a" "fval a \<noteq> 0"
  shows "fround (fval a < 0) \<bar>fval a\<bar> 1 = a"
proof -
  have nn: "0 \<le> fmag a" by (rule fmag_nonneg)
  have s: "(fval a < 0) = fsign a" using assms(2) nn by (auto simp: fval_def)
  have m: "\<bar>fval a\<bar> = fmag a * 1" using nn by (simp add: fval_def)
  have "fround (fsign a) (fmag a * 1) 1 = F32 (fsign a) (fexp a) (fman a)"
    using assms(1) by (intro fround_fmag) simp_all
  then show ?thesis unfolding s m by simp
qed

lemma fadd_fsub_cancel:
  assumes "exact_add a b"
  shows "feq (fsub (fadd a b) b) a"
proof -
  define c where "c = fadd a b"
  from assms have fa: "is_finite a" and fb: "is_finite b" and fc: "is_finite c"
    and v: "fval c = fval a + fval b"
    by (simp_all add: exact_add_def c_def)
  have sum: "fval c + fval (fneg b) = fval a" using v by simp
  have nb: "is_finite (fneg b)" using fb by simp
  have "feq (fadd c (fneg b)) a"
  proof (cases "fval a = 0")
    case True
    then have "fmag a = 0" by (simp add: fval_def split: if_splits)
    then have ka: "fkey a = 0" using fa by (intro fkey_zero)
    have "fadd c (fneg b) = fzero (fsign c \<and> fsign (fneg b))"
      using fc nb sum True
      by (simp add: fadd_def is_finite_not_nan is_finite_not_inf)
    moreover have "fkey (fzero (fsign c \<and> fsign (fneg b))) = 0" by (simp add: fkey_def fzero_def)
    ultimately show ?thesis using ka fa by (simp add: feq_def is_finite_not_nan)
  next
    case False
    have "fadd c (fneg b) = fround (fval a < 0) \<bar>fval a\<bar> 1"
      using fc nb sum False
      by (simp add: fadd_def is_finite_not_nan is_finite_not_inf)
    also have "\<dots> = a" using fa False by (rule fround_self)
    finally show ?thesis using fa by (simp add: feq_same is_finite_not_nan)
  qed
  with fc fb show ?thesis unfolding c_def by (simp add: fsub_def is_finite_not_nan)
qed

lemma is_inf_fields: "is_inf x \<Longrightarrow> x = finf (fsign x)"
  by (cases x) (simp add: is_inf_def finf_def)

lemma trichotomy: "is_nan x \<or> is_inf x \<or> is_finite x"
  by (auto simp: is_nan_def is_inf_def is_finite_def)

lemma fmag_f_1: "fmag f_1 = 2 ^ 149"
  by (simp add: fmag_def f_1_def)

lemma f_1_props: "\<not> is_nan f_1" "\<not> is_inf f_1" "is_finite f_1" "\<not> fsign f_1"
  by (simp_all add: is_nan_def is_inf_def is_finite_def f_1_def)

lemma fmul_one_left:
  assumes "is_nan x \<longrightarrow> fquiet x = x"
  shows "fmul f_1 x = x"
proof -
  consider "is_nan x" | "is_inf x" | "is_finite x" using trichotomy by blast
  then show ?thesis
  proof cases
    case 1
    with assms show ?thesis by (simp add: fmul_def nan_either_right f_1_props)
  next
    case 2
    then have nn: "\<not> is_nan x" and nf: "\<not> is_finite x"
      by (simp_all add: is_inf_def is_nan_def is_finite_def)
    have "fmul f_1 x = finf (fsign x)"
      using 2 nn nf by (simp add: fmul_def f_1_props fmag_f_1)
    with is_inf_fields[OF 2] show ?thesis by simp
  next
    case 3
    then have nn: "\<not> is_nan x" and ni: "\<not> is_inf x"
      by (simp_all add: is_finite_not_nan is_finite_not_inf)
    have "fmul f_1 x = fround (fsign x) (fmag x * 2 ^ 149) (2 ^ 149)"
      using nn ni by (simp add: fmul_def f_1_props fmag_f_1 mult.commute)
    also have "\<dots> = F32 (fsign x) (fexp x) (fman x)"
      using 3 by (intro fround_fmag) simp_all
    finally show ?thesis by simp
  qed
qed

lemma fmul_not_nan:
  "\<not> is_nan a \<Longrightarrow> is_finite b \<Longrightarrow> fmag b \<noteq> 0 \<Longrightarrow> \<not> is_nan (fmul a b)"
  by (simp add: fmul_def is_finite_not_nan is_finite_not_inf)

lemma fdiv_not_nan:
  "is_finite a \<Longrightarrow> fmag a \<noteq> 0 \<Longrightarrow> \<not> is_nan b \<Longrightarrow> \<not> is_nan (fdiv a b)"
  by (simp add: fdiv_def is_finite_not_nan is_finite_not_inf)

lemma mat4_m_set:
  "i < 4 \<Longrightarrow> j < 4 \<Longrightarrow> k < 4 \<Longrightarrow> l < 4 \<Longrightarrow>
     mat4_m (mat4_set m i j v) k l = (if k = i \<and> l = j then v else mat4_m m k l)"
  by (cases m; cases "col0 m"; cases "col1 m"; cases "col2 m"; cases "col3 m")
     (auto simp: mat4_m_def mat4_col_def)

lemma persp_entries:
  "mat4_m (QM_perspective tanf fov aspect near far) 0 0
     = fdiv near (fmul aspect (fmul (tanf (QM_deg_to_rad (fmul fov f_half))) near))"
  "mat4_m (QM_perspective tanf fov aspect near far) 1 1
     = fdiv near (fmul (tanf (QM_deg_to_rad (fmul fov f_half))) near)"
  "mat4_m (QM_perspective tanf fov aspect near far) 2 3 = f_m1"
  by (simp_all add: QM_perspective_def Let_def mat4_m_set)

lemma fround_zero: "0 < d \<Longrightarrow> fround s 0 d = fzero s"
  by (simp add: fround_def Let_def bitlen.simps rne_div_def fenc_def fzero_def)

lemma fzero_is_zero: "is_finite (fzero s) \<and> fmag (fzero s) = 0"
  by (simp add: is_finite_def fzero_def fmag_def)

lemma nan_or_zero_fmul:
  assumes "nan_or_zero s"
  shows "nan_or_zero (fmul q s)"
proof (cases "is_nan q \<or> is_nan s")
  case True
  then show ?thesis by (simp add: fmul_def nan_or_zero_def)
next
  case False
  with assms have z: "is_finite s" "fmag s = 0" by (simp_all add: nan_or_zero_def)
  show ?thesis
  proof (cases "is_inf q")
    case True
    with False z show ?thesis by (simp add: fmul_def nan_or_zero_def)
  next
    case False
    have "fmul q s = fzero (fsign q \<noteq> fsign s)"
      using False \<open>\<not> (is_nan q \<or> is_nan s)\<close> z
      by (simp add: fmul_def is_finite_not_inf fround_zero)
    then show ?thesis using fzero_is_zero by (simp add: nan_or_zero_def)
  qed
qed

lemma nan_or_zero_fmul_left: "nan_or_zero s \<Longrightarrow> nan_or_zero (fmul s q)"
  using nan_or_zero_fmul[of s q] by (simp add: fmul_commute)

lemma nan_or_zero_fadd:
  assumes "nan_or_zero a" "nan_or_zero b"
  shows "nan_or_zero (fadd a b)"
proof (cases "is_nan a \<or> is_nan b")
  case True
  then show ?thesis by (simp add: fadd_def nan_or_zero_def)
next
  case False
  with assms have z: "is_finite a" "fmag a = 0" "is_finite b" "fmag b = 0"
    by (simp_all add: nan_or_zero_def)
  then have "fadd a b = fzero (fsign a \<and> fsign b)"
    using False by (simp add: fadd_def is_finite_not_inf fval_def)
  then show ?thesis using fzero_is_zero by (simp add: nan_or_zero_def)
qed

lemma zero_cases: "is_finite x \<Longrightarrow> fmag x = 0 \<Longrightarrow> x = f_0 \<or> x = f_m0"
  using fmag_zero_fields[of x] by (cases x) (auto simp: f_0_def f_m0_def)

lemma f_0_is_zero: "is_finite f_0 \<and> fmag f_0 = 0" "is_finite f_m0 \<and> fmag f_m0 = 0"
  by (simp_all add: is_finite_def f_0_def f_m0_def fmag_def)

lemma nan_or_zero_sinf:
  assumes "libm_special sinf acosf" "nan_or_zero x"
  shows "nan_or_zero (sinf x)"
proof (cases "is_nan x")
  case True
  with assms(1) have "is_nan (sinf x)" by (simp add: libm_special_def)
  then show ?thesis by (simp add: nan_or_zero_def)
next
  case False
  with assms(2) have "is_finite x" "fmag x = 0" by (simp_all add: nan_or_zero_def)
  then have "x = f_0 \<or> x = f_m0" by (rule zero_cases)
  with assms(1) have "sinf x = x" by (auto simp: libm_special_def)
  with assms(2) show ?thesis by simp
qed

lemma nan_or_zero_times_inf_or_nan:
  assumes "nan_or_zero x" "is_inf y \<or> is_nan y"
  shows "is_nan (fmul x y)"
  using assms by (auto simp: fmul_def nan_or_zero_def)

lemma fdiv_one_zero: "fdiv f_1 f_0 = finf False"
  by code_simp

lemma is_inf_finf: "is_inf (finf s)"
  by (simp add: is_inf_def finf_def)

lemma slerp_components:
  "QM_slerp sinf acosf (QMquaternion x1 y1 z1 w1) (QMquaternion x2 y2 z2 w2) a =
    (let angle = acosf (QM_dot_quat (QMquaternion x1 y1 z1 w1) (QMquaternion x2 y2 z2 w2));
         sine1 = sinf (fmul (fsub f_1 a) angle);
         sine2 = sinf (fmul a angle);
         invSine = fdiv f_1 (sinf angle)
     in QMquaternion (fmul (fadd (fmul x1 sine1) (fmul x2 sine2)) invSine)
                     (fmul (fadd (fmul y1 sine1) (fmul y2 sine2)) invSine)
                     (fmul (fadd (fmul z1 sine1) (fmul z2 sine2)) invSine)
                     (fmul (fadd (fmul w1 sine1) (fmul w2 sine2)) invSine))"
  by (simp add: QM_slerp_def quat_mul_s_def quat_add_def mm_set1_ps_def mm_mul_ps_def mm_add_ps_def Let_def)

lemma slerp_self_nan:
  assumes libm: "libm_special sinf acosf"
    and dot: "QM_dot_quat q q = f_1 \<or> flt f_1 (QM_dot_quat q q)"
  shows "is_nan (qx (QM_slerp sinf acosf q q a)) \<and> is_nan (qy (QM_slerp sinf acosf q q a))
       \<and> is_nan (qz (QM_slerp sinf acosf q q a)) \<and> is_nan (qw (QM_slerp sinf acosf q q a))"
proof -
  define angle where "angle = acosf (QM_dot_quat q q)"
  define sine1 where "sine1 = sinf (fmul (fsub f_1 a) angle)"
  define sine2 where "sine2 = sinf (fmul a angle)"
  define invSine where "invSine = fdiv f_1 (sinf angle)"
  have ang: "nan_or_zero angle \<and> (is_inf invSine \<or> is_nan invSine)"
  proof -
    from dot show ?thesis
    proof
      assume "QM_dot_quat q q = f_1"
      with libm have a0: "angle = f_0" by (simp add: angle_def libm_special_def)
      moreover from libm have "sinf f_0 = f_0" by (simp add: libm_special_def)
      ultimately have "invSine = finf False" by (simp add: invSine_def fdiv_one_zero)
      with a0 show ?thesis using f_0_is_zero(1) by (simp add: nan_or_zero_def is_inf_finf)
    next
      assume "flt f_1 (QM_dot_quat q q)"
      with libm have an: "is_nan angle" by (simp add: angle_def libm_special_def)
      with libm have "is_nan (sinf angle)" by (simp add: libm_special_def)
      then have "is_nan invSine" by (simp add: invSine_def is_nan_fdiv_operand)
      with an show ?thesis by (simp add: nan_or_zero_def)
    qed
  qed
  have s1: "nan_or_zero sine1"
    unfolding sine1_def using ang by (intro nan_or_zero_sinf[OF libm] nan_or_zero_fmul) simp
  have s2: "nan_or_zero sine2"
    unfolding sine2_def using ang by (intro nan_or_zero_sinf[OF libm] nan_or_zero_fmul) simp
  have comp: "is_nan (fmul (fadd (fmul c sine1) (fmul c sine2)) invSine)" for c
    using ang s1 s2 by (intro nan_or_zero_times_inf_or_nan nan_or_zero_fadd nan_or_zero_fmul) simp_all
  obtain x y z w where q: "q = QMquaternion x y z w" by (cases q)
  show ?thesis
    using comp unfolding invSine_def sine1_def sine2_def angle_def q
    by (simp add: slerp_components Let_def)
qed

lemma fsign_fenc [simp]: "fsign (fenc s m) = s"
  by (simp add: fenc_def finf_def Let_def)

lemma fsign_fround [simp]: "fsign (fround s n d) = s"
  by (simp add: fround_def Let_def)

lemma fsign_fzero [simp]: "fsign (fzero s) = s"
  by (simp add: fzero_def)

lemma fsign_finf [simp]: "fsign (finf s) = s"
  by (simp add: finf_def)

lemma fmul_self_nonneg:
  "\<not> is_nan x \<Longrightarrow> \<not> is_nan (fmul x x) \<and> \<not> fsign (fmul x x)"
  by (auto simp: fmul_def is_finite_not_inf)

lemma fadd_nonneg:
  assumes "\<not> is_nan a" "\<not> fsign a" "\<not> is_nan b" "\<not> fsign b"
  shows "\<not> is_nan (fadd a b) \<and> \<not> fsign (fadd a b)"
proof -
  have "0 \<le> fval a + fval b"
    using assms fmag_nonneg[of a] fmag_nonneg[of b] by (simp add: fval_def)
  then have "\<not> fval a + fval b < 0" by simp
  then show ?thesis using assms by (simp add: fadd_def)
qed

lemma fsqrt_nonneg: "\<not> is_nan a \<Longrightarrow> \<not> fsign a \<Longrightarrow> \<not> is_nan (fsqrt a)"
  by (simp add: fsqrt_def Let_def)

lemma dot_quat_self_nonneg:
  assumes "\<not> is_nan (qx q)" "\<not> is_nan (qy q)" "\<not> is_nan (qz q)" "\<not> is_nan (qw q)"
  shows "\<not> is_nan (QM_dot_quat q q) \<and> \<not> fsign (QM_dot_quat q q)"
proof -
  obtain x y z w where q: "q = QMquaternion x y z w" by (cases q)
  from assms have n: "\<not> is_nan x" "\<not> is_nan y" "\<not> is_nan z" "\<not> is_nan w" by (simp_all add: q)
  have d: "QM_dot_quat q q = fadd (fadd (fmul x x) (fmul y y)) (fadd (fmul z z) (fmul w w))"
    by (simp add: q QM_dot_quat_def mm_mul_ps_def mm_store_ss_def Let_def)
  have xy: "\<not> is_nan (fadd (fmul x x) (fmul y y)) \<and> \<not> fsign (fadd (fmul x x) (fmul y y))"
    using fmul_self_nonneg[OF n(1)] fmul_self_nonneg[OF n(2)] by (intro fadd_nonneg) simp_all
  have zw: "\<not> is_nan (fadd (fmul z z) (fmul w w)) \<and> \<not> fsign (fadd (fmul z z) (fmul w w))"
    using fmul_self_nonneg[OF n(3)] fmul_self_nonneg[OF n(4)] by (intro fadd_nonneg) simp_all
  show ?thesis unfolding d using xy zw by (intro fadd_nonneg) simp_all
qed

lemma length_quat_not_nan:
  assumes "\<not> is_nan (qx q)" "\<not> is_nan (qy q)" "\<not> is_nan (qz q)" "\<not> is_nan (qw q)"
  shows "\<not> is_nan (QM_length_quat q)"
  unfolding QM_length_quat_def using dot_quat_self_nonneg[OF assms] by (intro fsqrt_nonneg) simp_all

lemma libm_special_special: "libm_special sinf_special acosf_special"
proof -
  have "is_nan (acosf_special x)" if "flt f_1 x" for x
  proof -
    from that have "x \<noteq> f_1" by (auto simp: flt_def)
    then show ?thesis by (simp add: acosf_special_def)
  qed
  moreover have "is_nan (sinf_special x)" if "is_nan x" for x
  proof -
    from that have "\<not> is_finite x" by (simp add: is_nan_def is_finite_def)
    then show ?thesis by (simp add: sinf_special_def)
  qed
  moreover have "acosf_special f_1 = f_0 \<and> sinf_special f_0 = f_0 \<and> sinf_special f_m0 = f_m0"
    by code_simp
  ultimately show ?thesis by (simp add: libm_special_def)
qed

section \<open>The claims\<close>

text \<open>
  C1. The claim: for every quaternion \<open>q\<close> with \<open>dot(q, q) \<noteq> 0\<close>, \<open>inverse(q)\<close> is the
  conjugate scaled by \<open>1 / dot(q, q)\<close>. The code returns the conjugate unscaled, the
  quotient being computed and dropped. At \<open>q = (0, 0, 0, 2)\<close>, where \<open>dot(q, q) = 4\<close>,
  the code returns \<open>(-0, -0, -0, 2)\<close> and the claimed value is \<open>(-0, -0, -0, 0.5)\<close>.
\<close>

theorem QM_inverse_quat_at_0002:
  "QM_inverse_quat (QMquaternion f_0 f_0 f_0 f_2) = QMquaternion f_m0 f_m0 f_m0 f_2
   \<and> fne (QM_dot_quat (QMquaternion f_0 f_0 f_0 f_2) (QMquaternion f_0 f_0 f_0 f_2)) f_0
   \<and> spec_inverse_quat (QMquaternion f_0 f_0 f_0 f_2) = QMquaternion f_m0 f_m0 f_m0 f_half
   \<and> \<not> quat_eq (QM_inverse_quat (QMquaternion f_0 f_0 f_0 f_2))
                 (spec_inverse_quat (QMquaternion f_0 f_0 f_0 f_2))"
  by code_simp

text \<open>
  C2. \<open>normalize\<close> in dimensions 2 and 3 is guarded: whenever the length compares equal to
  0 it returns the zero vector (so the zero vector comes back unchanged). In dimension 4
  there is no guard, \<open>normalize\<close> is the quotient by the length whatever it is, and for the
  zero vector, whose length is 0, every component is \<open>0 / 0\<close>, a NaN.
\<close>

theorem QM_normalize_zero_length:
  "(feq (QM_length_vec2 u) f_0 \<longrightarrow> QM_normalize_vec2 u = QMvec2 f_0 f_0)
   \<and> (feq (QM_length_vec3 v) f_0 \<longrightarrow> QM_normalize_vec3 v = QMvec3 f_0 f_0 f_0)
   \<and> QM_normalize_vec2 (QMvec2 f_0 f_0) = QMvec2 f_0 f_0
   \<and> QM_normalize_vec3 (QMvec3 f_0 f_0 f_0) = QMvec3 f_0 f_0 f_0
   \<and> QM_normalize_vec4 w = vec4_div_s w (QM_length_vec4 w)
   \<and> QM_length_vec4 (QMvec4 f_0 f_0 f_0 f_0) = f_0
   \<and> QM_normalize_vec4 (QMvec4 f_0 f_0 f_0 f_0) = QMvec4 qnan qnan qnan qnan"
proof (intro conjI)
  show "feq (QM_length_vec2 u) f_0 \<longrightarrow> QM_normalize_vec2 u = QMvec2 f_0 f_0"
    by (simp add: QM_normalize_vec2_def fne_def QMvec2_default_def Let_def)
  show "feq (QM_length_vec3 v) f_0 \<longrightarrow> QM_normalize_vec3 v = QMvec3 f_0 f_0 f_0"
    by (simp add: QM_normalize_vec3_def fne_def QMvec3_default_def Let_def)
  show "QM_normalize_vec2 (QMvec2 f_0 f_0) = QMvec2 f_0 f_0"
    by code_simp
  show "QM_normalize_vec3 (QMvec3 f_0 f_0 f_0) = QMvec3 f_0 f_0 f_0"
    by code_simp
  show "QM_normalize_vec4 w = vec4_div_s w (QM_length_vec4 w)"
    by (simp add: QM_normalize_vec4_def Let_def)
  show "QM_length_vec4 (QMvec4 f_0 f_0 f_0 f_0) = f_0"
    by code_simp
  show "QM_normalize_vec4 (QMvec4 f_0 f_0 f_0 f_0) = QMvec4 qnan qnan qnan qnan"
    by code_simp
qed

text \<open>
  The guard at work on vectors that are not the zero vector: the squares of \<open>2^-100\<close>
  underflow to 0, so the length of \<open>(2^-100, 0)\<close> is 0, and so is that of \<open>(-0, 0, 0)\<close>.
\<close>

theorem QM_normalize_zero_length_witness:
  "feq (QM_length_vec2 (QMvec2 (F32 False 27 0) f_0)) f_0
   \<and> QM_normalize_vec2 (QMvec2 (F32 False 27 0) f_0) = QMvec2 f_0 f_0
   \<and> feq (QM_length_vec3 (QMvec3 f_m0 f_0 f_0)) f_0
   \<and> QM_normalize_vec3 (QMvec3 f_m0 f_0 f_0) = QMvec3 f_0 f_0 f_0"
proof -
  have h2: "feq (QM_length_vec2 (QMvec2 (F32 False 27 0) f_0)) f_0"
    by code_simp
  have h3: "feq (QM_length_vec3 (QMvec3 f_m0 f_0 f_0)) f_0"
    by code_simp
  from h2 h3 show ?thesis
    using QM_normalize_zero_length [of "QMvec2 (F32 False 27 0) f_0" "QMvec3 f_m0 f_0 f_0"]
    by blast
qed

text \<open>
  C3. The claim: quaternion \<open>normalize\<close>, compiled with SSE, has no guard and divides a
  quaternion of length 0 by zero. In the code the guard is there: at the zero quaternion
  the length is 0, the function returns the zero quaternion, and the quotient by the
  length, which the claim says it returns, is NaN in every component.
\<close>

theorem QM_normalize_quat_zero_counterexample:
  "feq (QM_length_quat (QMquaternion f_0 f_0 f_0 f_0)) f_0
   \<and> QM_normalize_quat (QMquaternion f_0 f_0 f_0 f_0) = QMquaternion f_0 f_0 f_0 f_0
   \<and> quat_div_s (QMquaternion f_0 f_0 f_0 f_0) (QM_length_quat (QMquaternion f_0 f_0 f_0 f_0))
       = QMquaternion qnan qnan qnan qnan
   \<and> QM_normalize_quat (QMquaternion f_0 f_0 f_0 f_0)
       \<noteq> quat_div_s (QMquaternion f_0 f_0 f_0 f_0) (QM_length_quat (QMquaternion f_0 f_0 f_0 f_0))"
  by code_simp

text \<open>
  C3 as amended: quaternion \<open>normalize\<close> is guarded like the vector ones of dimension 2
  and 3. When the length compares equal to 0 it returns the zero quaternion without
  dividing; otherwise it returns the quotient by the length.
\<close>

theorem QM_normalize_quat_guarded:
  "(feq (QM_length_quat q) f_0 \<longrightarrow> QM_normalize_quat q = QMquaternion f_0 f_0 f_0 f_0)
   \<and> (fne (QM_length_quat q) f_0 \<longrightarrow> QM_normalize_quat q = quat_div_s q (QM_length_quat q))"
  by (simp add: QM_normalize_quat_def fne_def QMquaternion_default_def Let_def)

theorem QM_normalize_quat_guarded_witness:
  "feq (QM_length_quat (QMquaternion f_0 f_0 f_0 f_0)) f_0
   \<and> QM_normalize_quat (QMquaternion f_0 f_0 f_0 f_0) = QMquaternion f_0 f_0 f_0 f_0
   \<and> fne (QM_length_quat (QMquaternion f_0 f_0 f_0 f_2)) f_0
   \<and> QM_normalize_quat (QMquaternion f_0 f_0 f_0 f_2)
       = quat_div_s (QMquaternion f_0 f_0 f_0 f_2) (QM_length_quat (QMquaternion f_0 f_0 f_0 f_2))"
proof -
  have h0: "feq (QM_length_quat (QMquaternion f_0 f_0 f_0 f_0)) f_0"
    by code_simp
  have h2: "fne (QM_length_quat (QMquaternion f_0 f_0 f_0 f_2)) f_0"
    by code_simp
  from h0 h2 show ?thesis
    using QM_normalize_quat_guarded [of "QMquaternion f_0 f_0 f_0 f_0"]
      QM_normalize_quat_guarded [of "QMquaternion f_0 f_0 f_0 f_2"]
    by blast
qed

text \<open>
  C4. The claim: for all quaternions \<open>q1\<close>, \<open>q2\<close> the SSE branch of the quaternion product
  gives exactly the four components of the scalar formula. With a NaN in \<open>q1\<close> it does
  not: the SSE branch flips the sign bit of \<open>x1\<close> with \<open>_mm_xor_ps\<close> in lanes \<open>y\<close> and \<open>w\<close>
  before it multiplies, and the product returns the NaN with the flipped sign, where the
  scalar branch subtracts the product and the difference returns the NaN as it is. At
  \<open>q1 = (NaN, 0, 0, 0)\<close>, \<open>q2 = (1, 1, 1, 1)\<close> the SSE branch gives
  \<open>0x7FC00000, 0xFFC00000, 0x7FC00000, 0xFFC00000\<close> and the scalar branch
  \<open>0x7FC00000\<close> four times.
\<close>

theorem quat_mul_nan_counterexample:
  "quat_mul (QMquaternion f_nan f_0 f_0 f_0) (QMquaternion f_1 f_1 f_1 f_1)
     = QMquaternion f_nan qnan f_nan qnan
   \<and> quat_mul_noSSE (QMquaternion f_nan f_0 f_0 f_0) (QMquaternion f_1 f_1 f_1 f_1)
     = QMquaternion f_nan f_nan f_nan f_nan
   \<and> quat_mul (QMquaternion f_nan f_0 f_0 f_0) (QMquaternion f_1 f_1 f_1 f_1)
     \<noteq> quat_mul_noSSE (QMquaternion f_nan f_0 f_0 f_0) (QMquaternion f_1 f_1 f_1 f_1)"
  by code_simp

text \<open>
  C4 as amended: for all quaternions \<open>q1\<close>, \<open>q2\<close> each component of the SSE product is
  the same float as the component of the scalar formula
  \<open>x = w1x2 + x1w2 + y1z2 - z1y2\<close>, \<open>y = w1y2 - x1z2 + y1w2 + z1x2\<close>,
  \<open>z = w1z2 + x1y2 - y1x2 + z1w2\<close>, \<open>w = w1w2 - x1x2 - y1y2 - z1z2\<close>, or both are NaN;
  and when no component of \<open>q1\<close> and \<open>q2\<close> is a NaN the four components are the same
  floats, bit for bit (a NaN that arises is then the default NaN in both branches). The
  sums are taken in the same order; where the formula subtracts a product, the SSE branch
  adds the product of the sign-flipped component.
\<close>

theorem quat_mul_sse_scalar_agree:
  "nan_eq (qx (quat_mul q1 q2)) (qx (quat_mul_noSSE q1 q2))
   \<and> nan_eq (qy (quat_mul q1 q2)) (qy (quat_mul_noSSE q1 q2))
   \<and> nan_eq (qz (quat_mul q1 q2)) (qz (quat_mul_noSSE q1 q2))
   \<and> nan_eq (qw (quat_mul q1 q2)) (qw (quat_mul_noSSE q1 q2))
   \<and> (\<not> is_nan (qx q1) \<and> \<not> is_nan (qy q1) \<and> \<not> is_nan (qz q1) \<and> \<not> is_nan (qw q1)
        \<and> \<not> is_nan (qx q2) \<and> \<not> is_nan (qy q2) \<and> \<not> is_nan (qz q2) \<and> \<not> is_nan (qw q2)
       \<longrightarrow> quat_mul q1 q2 = quat_mul_noSSE q1 q2)"
proof -
  obtain x1 y1 z1 w1 where q1: "q1 = QMquaternion x1 y1 z1 w1" by (cases q1)
  obtain x2 y2 z2 w2 where q2: "q2 = QMquaternion x2 y2 z2 w2" by (cases q2)
  have sse: "quat_mul q1 q2 =
      QMquaternion
        (fadd (fadd (fadd (fmul w1 x2) (fmul x1 w2)) (fmul y1 z2)) (fmul (fneg z1) y2))
        (fadd (fadd (fadd (fmul w1 y2) (fmul (fneg x1) z2)) (fmul y1 w2)) (fmul z1 x2))
        (fadd (fadd (fadd (fmul w1 z2) (fmul x1 y2)) (fmul (fneg y1) x2)) (fmul z1 w2))
        (fadd (fadd (fadd (fmul w1 w2) (fmul (fneg x1) x2)) (fmul (fneg y1) y2))
              (fmul (fneg z1) z2))"
    unfolding q1 q2
    by (simp add: quat_mul_def mm_add_ps_def mm_mul_ps_def mm_xor_ps_def
        mm_setr_ps_def MM_SHUFFLE_def mm_shuffle_ps_def Let_def)
  have up_to_nan:
    "nan_eq (qx (quat_mul q1 q2)) (qx (quat_mul_noSSE q1 q2))
     \<and> nan_eq (qy (quat_mul q1 q2)) (qy (quat_mul_noSSE q1 q2))
     \<and> nan_eq (qz (quat_mul q1 q2)) (qz (quat_mul_noSSE q1 q2))
     \<and> nan_eq (qw (quat_mul q1 q2)) (qw (quat_mul_noSSE q1 q2))"
    unfolding sse unfolding q1 q2 quat_mul_noSSE_def QMquaternion.sel
    by (intro conjI nan_eq_fadd nan_eq_fadd_fsub nan_eq_refl)
  have same: "quat_mul q1 q2 = quat_mul_noSSE q1 q2"
    if "\<not> is_nan x1" "\<not> is_nan y1" "\<not> is_nan z1" "\<not> is_nan w1"
       "\<not> is_nan x2" "\<not> is_nan y2" "\<not> is_nan z2" "\<not> is_nan w2"
    unfolding sse unfolding q1 q2 quat_mul_noSSE_def QMquaternion.sel
    using that
    by (simp add: fadd_fmul_fneg nan_default_fmul nan_default_fadd nan_default_fsub)
  from up_to_nan same show ?thesis by (simp add: q1 q2)
qed

text \<open>
  The product of \<open>(1, 2, 3, 0.5)\<close> and \<open>(2, -1, 0.5, 3)\<close> is \<open>(8, 11, 4.25, 0)\<close> in both
  branches.
\<close>

theorem quat_mul_sse_scalar_agree_witness:
  "\<not> is_nan f_1 \<and> \<not> is_nan f_2 \<and> \<not> is_nan f_3 \<and> \<not> is_nan f_half \<and> \<not> is_nan f_m1
   \<and> quat_mul (QMquaternion f_1 f_2 f_3 f_half) (QMquaternion f_2 f_m1 f_half f_3)
       = quat_mul_noSSE (QMquaternion f_1 f_2 f_3 f_half) (QMquaternion f_2 f_m1 f_half f_3)
   \<and> quat_mul_noSSE (QMquaternion f_1 f_2 f_3 f_half) (QMquaternion f_2 f_m1 f_half f_3)
       = QMquaternion (F32 False 130 0) (F32 False 130 3145728) (F32 False 129 524288) f_0"
proof -
  have n: "\<not> is_nan f_1 \<and> \<not> is_nan f_2 \<and> \<not> is_nan f_3 \<and> \<not> is_nan f_half \<and> \<not> is_nan f_m1"
    by code_simp
  have v: "quat_mul_noSSE (QMquaternion f_1 f_2 f_3 f_half) (QMquaternion f_2 f_m1 f_half f_3)
       = QMquaternion (F32 False 130 0) (F32 False 130 3145728) (F32 False 129 524288) f_0"
    by code_simp
  have "quat_mul (QMquaternion f_1 f_2 f_3 f_half) (QMquaternion f_2 f_m1 f_half f_3)
       = quat_mul_noSSE (QMquaternion f_1 f_2 f_3 f_half) (QMquaternion f_2 f_m1 f_half f_3)"
    using n quat_mul_sse_scalar_agree
      [of "QMquaternion f_1 f_2 f_3 f_half" "QMquaternion f_2 f_m1 f_half f_3"]
    by simp
  with n v show ?thesis by blast
qed


text \<open>
  C6. The claim: for vectors with finite components and no overflow,
  \<open>(v1 + v2) - v2 == v1\<close>. The sum is rounded, and what was rounded away does not come
  back: \<open>1 + 16777216\<close> is halfway between the floats \<open>16777216\<close> and \<open>16777218\<close> and
  rounds to the even one, \<open>16777216\<close>, so \<open>(1 + 16777216) - 16777216\<close> is 0. (The float
  \<open>16777216 = 2^24\<close> has the fields \<open>F32 False 151 0\<close>.) All the floats involved are finite.
\<close>

theorem vec_add_sub_counterexample:
  "is_finite f_1 \<and> is_finite (F32 False 151 0) \<and> is_finite f_0
   \<and> fadd f_1 (F32 False 151 0) = F32 False 151 0
   \<and> vec4_sub (vec4_add (QMvec4 f_1 f_0 f_0 f_0) (QMvec4 (F32 False 151 0) f_0 f_0 f_0))
         (QMvec4 (F32 False 151 0) f_0 f_0 f_0) = QMvec4 f_0 f_0 f_0 f_0
   \<and> \<not> vec4_eq (vec4_sub (vec4_add (QMvec4 f_1 f_0 f_0 f_0) (QMvec4 (F32 False 151 0) f_0 f_0 f_0))
                         (QMvec4 (F32 False 151 0) f_0 f_0 f_0))
                (QMvec4 f_1 f_0 f_0 f_0)
   \<and> \<not> vec3_eq (vec3_sub (vec3_add (QMvec3 f_1 f_0 f_0) (QMvec3 (F32 False 151 0) f_0 f_0))
                         (QMvec3 (F32 False 151 0) f_0 f_0))
                (QMvec3 f_1 f_0 f_0)
   \<and> \<not> vec2_eq (vec2_sub (vec2_add (QMvec2 f_1 f_0) (QMvec2 (F32 False 151 0) f_0))
                         (QMvec2 (F32 False 151 0) f_0))
                (QMvec2 f_1 f_0)"
  by code_simp

text \<open>
  C6 as amended: in dimensions 2, 3 and 4, \<open>(v1 + v2) - v2 == v1\<close> holds componentwise
  whenever every component sum \<open>v1.c + v2.c\<close> is exact, that is, the components are
  finite and their float sum is finite and equal to their sum as numbers.
\<close>

theorem vec_add_sub_exact:
  "(exact_add (v2x u1) (v2x u2) \<and> exact_add (v2y u1) (v2y u2)
     \<longrightarrow> vec2_eq (vec2_sub (vec2_add u1 u2) u2) u1)
   \<and> (exact_add (v3x v1) (v3x v2) \<and> exact_add (v3y v1) (v3y v2) \<and> exact_add (v3z v1) (v3z v2)
     \<longrightarrow> vec3_eq (vec3_sub (vec3_add v1 v2) v2) v1)
   \<and> (exact_add (v4x w1) (v4x w2) \<and> exact_add (v4y w1) (v4y w2) \<and> exact_add (v4z w1) (v4z w2)
        \<and> exact_add (v4w w1) (v4w w2)
     \<longrightarrow> vec4_eq (vec4_sub (vec4_add w1 w2) w2) w1)"
  by (cases w1; cases w2)
     (simp add: vec2_eq_def vec2_sub_def vec2_add_def vec3_eq_def vec3_sub_def vec3_add_def
       vec4_eq_def vec4_sub_def vec4_add_def mm_add_ps_def mm_sub_ps_def fadd_fsub_cancel)

text \<open>The sums \<open>1 + 2\<close>, \<open>2 + 0.5\<close>, \<open>-1 + 1\<close> and \<open>3 + (-0)\<close> are exact.\<close>

theorem vec_add_sub_exact_witness:
  "exact_add f_1 f_2 \<and> exact_add f_2 f_half \<and> exact_add f_m1 f_1 \<and> exact_add f_3 f_m0
   \<and> vec2_eq (vec2_sub (vec2_add (QMvec2 f_1 f_2) (QMvec2 f_2 f_half)) (QMvec2 f_2 f_half))
              (QMvec2 f_1 f_2)
   \<and> vec3_eq (vec3_sub (vec3_add (QMvec3 f_1 f_2 f_m1) (QMvec3 f_2 f_half f_1))
                       (QMvec3 f_2 f_half f_1))
              (QMvec3 f_1 f_2 f_m1)
   \<and> vec4_eq (vec4_sub (vec4_add (QMvec4 f_1 f_2 f_m1 f_3) (QMvec4 f_2 f_half f_1 f_m0))
                       (QMvec4 f_2 f_half f_1 f_m0))
              (QMvec4 f_1 f_2 f_m1 f_3)"
proof -
  have e: "exact_add f_1 f_2" "exact_add f_2 f_half" "exact_add f_m1 f_1" "exact_add f_3 f_m0"
    by code_simp+
  from e show ?thesis
    using vec_add_sub_exact [of "QMvec2 f_1 f_2" "QMvec2 f_2 f_half"
        "QMvec3 f_1 f_2 f_m1" "QMvec3 f_2 f_half f_1"
        "QMvec4 f_1 f_2 f_m1 f_3" "QMvec4 f_2 f_half f_1 f_m0"]
    by simp
qed

text \<open>
  C7. The claim: for every quaternion \<open>q\<close> and every \<open>a\<close> in \<open>[0, 1]\<close>,
  \<open>slerp(q, q, a) == q\<close>, the case of a zero sine apart. At \<open>q = (0, 0, 0, 2)\<close> and
  \<open>a = 0.5\<close> the cosine \<open>dot(q, q)\<close> is 4, \<open>acosf(4)\<close> is NaN and so is its sine, which
  is therefore not zero; all four components of the result are NaN and the result does
  not compare equal to \<open>q\<close>. The last two conjuncts are the case the claim sets apart, at
  the identity quaternion: the cosine is 1, the angle and its sine are 0, and the result
  is NaN in every component too.
\<close>

theorem QM_slerp_self_counterexample:
  "libm_special sinf_special acosf_special
   \<and> fle f_0 f_half \<and> fle f_half f_1
   \<and> flt f_1 (QM_dot_quat (QMquaternion f_0 f_0 f_0 f_2) (QMquaternion f_0 f_0 f_0 f_2))
   \<and> fne (sinf_special (acosf_special
             (QM_dot_quat (QMquaternion f_0 f_0 f_0 f_2) (QMquaternion f_0 f_0 f_0 f_2)))) f_0
   \<and> QM_slerp sinf_special acosf_special
        (QMquaternion f_0 f_0 f_0 f_2) (QMquaternion f_0 f_0 f_0 f_2) f_half
       = QMquaternion qnan qnan qnan qnan
   \<and> \<not> quat_eq (QM_slerp sinf_special acosf_special
                   (QMquaternion f_0 f_0 f_0 f_2) (QMquaternion f_0 f_0 f_0 f_2) f_half)
                (QMquaternion f_0 f_0 f_0 f_2)
   \<and> QM_dot_quat (QMquaternion f_0 f_0 f_0 f_1) (QMquaternion f_0 f_0 f_0 f_1) = f_1
   \<and> QM_slerp sinf_special acosf_special
        (QMquaternion f_0 f_0 f_0 f_1) (QMquaternion f_0 f_0 f_0 f_1) f_half
       = QMquaternion qnan qnan qnan qnan"
proof -
  have "fle f_0 f_half \<and> fle f_half f_1
   \<and> flt f_1 (QM_dot_quat (QMquaternion f_0 f_0 f_0 f_2) (QMquaternion f_0 f_0 f_0 f_2))
   \<and> fne (sinf_special (acosf_special
             (QM_dot_quat (QMquaternion f_0 f_0 f_0 f_2) (QMquaternion f_0 f_0 f_0 f_2)))) f_0
   \<and> QM_slerp sinf_special acosf_special
        (QMquaternion f_0 f_0 f_0 f_2) (QMquaternion f_0 f_0 f_0 f_2) f_half
       = QMquaternion qnan qnan qnan qnan
   \<and> \<not> quat_eq (QM_slerp sinf_special acosf_special
                   (QMquaternion f_0 f_0 f_0 f_2) (QMquaternion f_0 f_0 f_0 f_2) f_half)
                (QMquaternion f_0 f_0 f_0 f_2)
   \<and> QM_dot_quat (QMquaternion f_0 f_0 f_0 f_1) (QMquaternion f_0 f_0 f_0 f_1) = f_1
   \<and> QM_slerp sinf_special acosf_special
        (QMquaternion f_0 f_0 f_0 f_1) (QMquaternion f_0 f_0 f_0 f_1) f_half
       = QMquaternion qnan qnan qnan qnan"
    by code_simp
  with libm_special_special show ?thesis by (rule conjI)
qed

text \<open>
  C7 as amended: \<open>slerp(q, q, a)\<close> does not return \<open>q\<close> when \<open>dot(q, q)\<close> is 1 or more.
  With a C library that has the standard's special values, for every \<open>a\<close> and every
  quaternion \<open>q\<close> whose \<open>dot(q, q)\<close> is the float 1 (every exactly normalised
  quaternion, the identity among them: the sine of the angle is zero and the division by
  it is unguarded) or is greater than 1 (\<open>acosf\<close> is NaN), all four components of
  \<open>slerp(q, q, a)\<close> are NaN, and the result does not compare equal to \<open>q\<close>.
\<close>

theorem QM_slerp_self_is_nan:
  assumes "libm_special sinf acosf"
    and "QM_dot_quat q q = f_1 \<or> flt f_1 (QM_dot_quat q q)"
  shows "is_nan (qx (QM_slerp sinf acosf q q a)) \<and> is_nan (qy (QM_slerp sinf acosf q q a))
       \<and> is_nan (qz (QM_slerp sinf acosf q q a)) \<and> is_nan (qw (QM_slerp sinf acosf q q a))
       \<and> \<not> quat_eq (QM_slerp sinf acosf q q a) q"
  using slerp_self_nan [OF assms, of a] by (simp add: quat_eq_def feq_def)

theorem QM_slerp_self_is_nan_witness:
  "libm_special sinf_special acosf_special
   \<and> QM_dot_quat (QMquaternion f_0 f_0 f_0 f_1) (QMquaternion f_0 f_0 f_0 f_1) = f_1
   \<and> \<not> quat_eq (QM_slerp sinf_special acosf_special
                   (QMquaternion f_0 f_0 f_0 f_1) (QMquaternion f_0 f_0 f_0 f_1) f_0)
                (QMquaternion f_0 f_0 f_0 f_1)
   \<and> flt f_1 (QM_dot_quat (QMquaternion f_1 f_1 f_0 f_0) (QMquaternion f_1 f_1 f_0 f_0))
   \<and> \<not> quat_eq (QM_slerp sinf_special acosf_special
                   (QMquaternion f_1 f_1 f_0 f_0) (QMquaternion f_1 f_1 f_0 f_0) f_1)
                (QMquaternion f_1 f_1 f_0 f_0)"
proof -
  have d1: "QM_dot_quat (QMquaternion f_0 f_0 f_0 f_1) (QMquaternion f_0 f_0 f_0 f_1) = f_1"
    by code_simp
  have d2: "flt f_1 (QM_dot_quat (QMquaternion f_1 f_1 f_0 f_0) (QMquaternion f_1 f_1 f_0 f_0))"
    by code_simp
  from d1 d2 libm_special_special show ?thesis
    using QM_slerp_self_is_nan [of sinf_special acosf_special "QMquaternion f_0 f_0 f_0 f_1" f_0]
      QM_slerp_self_is_nan [of sinf_special acosf_special "QMquaternion f_1 f_1 f_0 f_0" f_1]
    by blast
qed

text \<open>
  C8. \<open>perspective(90, 1.0, 0.1, 100.0)\<close> has \<open>m[0][0]\<close> and \<open>m[1][1]\<close> the same float
  (the aspect 1.0 leaves \<open>right = top\<close>) and \<open>m[2][3] = -1\<close>; the two compare equal with
  \<open>==\<close> as soon as \<open>tanf\<close> does not return NaN at 45 degrees. For all arguments, the
  eleven entries that \<open>perspective\<close> does not assign are \<open>+0\<close>.
\<close>

theorem QM_perspective_entries:
  "mat4_m (QM_perspective tanf f_90 f_1 f_0p1 f_100) 0 0
     = mat4_m (QM_perspective tanf f_90 f_1 f_0p1 f_100) 1 1
   \<and> (\<not> is_nan (tanf (QM_deg_to_rad (fmul f_90 f_half))) \<longrightarrow>
        feq (mat4_m (QM_perspective tanf f_90 f_1 f_0p1 f_100) 0 0)
            (mat4_m (QM_perspective tanf f_90 f_1 f_0p1 f_100) 1 1))
   \<and> mat4_m (QM_perspective tanf f_90 f_1 f_0p1 f_100) 2 3 = f_m1
   \<and> mat4_m (QM_perspective tanf fov aspect near far) 0 1 = f_0
   \<and> mat4_m (QM_perspective tanf fov aspect near far) 0 2 = f_0
   \<and> mat4_m (QM_perspective tanf fov aspect near far) 0 3 = f_0
   \<and> mat4_m (QM_perspective tanf fov aspect near far) 1 0 = f_0
   \<and> mat4_m (QM_perspective tanf fov aspect near far) 1 2 = f_0
   \<and> mat4_m (QM_perspective tanf fov aspect near far) 1 3 = f_0
   \<and> mat4_m (QM_perspective tanf fov aspect near far) 2 0 = f_0
   \<and> mat4_m (QM_perspective tanf fov aspect near far) 2 1 = f_0
   \<and> mat4_m (QM_perspective tanf fov aspect near far) 3 0 = f_0
   \<and> mat4_m (QM_perspective tanf fov aspect near far) 3 1 = f_0
   \<and> mat4_m (QM_perspective tanf fov aspect near far) 3 3 = f_0"
proof -
  define t where "t = tanf (QM_deg_to_rad (fmul f_90 f_half))"
  have near: "is_finite f_0p1" "fmag f_0p1 \<noteq> 0"
    by code_simp+
  have one: "fmul f_1 (fmul t f_0p1) = fmul t f_0p1"
    by (rule fmul_one_left) (simp add: fmul_nan_quiet)
  have nn: "\<not> is_nan t \<Longrightarrow> \<not> is_nan (fdiv f_0p1 (fmul t f_0p1))"
    by (intro fdiv_not_nan fmul_not_nan near)
  have scenario:
    "mat4_m (QM_perspective tanf f_90 f_1 f_0p1 f_100) 0 0
       = mat4_m (QM_perspective tanf f_90 f_1 f_0p1 f_100) 1 1
     \<and> (\<not> is_nan t \<longrightarrow>
          feq (mat4_m (QM_perspective tanf f_90 f_1 f_0p1 f_100) 0 0)
              (mat4_m (QM_perspective tanf f_90 f_1 f_0p1 f_100) 1 1))
     \<and> mat4_m (QM_perspective tanf f_90 f_1 f_0p1 f_100) 2 3 = f_m1"
    unfolding persp_entries t_def[symmetric] one using nn by (simp add: feq_same)
  have zeros:
    "mat4_m (QM_perspective tanf fov aspect near far) 0 1 = f_0
     \<and> mat4_m (QM_perspective tanf fov aspect near far) 0 2 = f_0
     \<and> mat4_m (QM_perspective tanf fov aspect near far) 0 3 = f_0
     \<and> mat4_m (QM_perspective tanf fov aspect near far) 1 0 = f_0
     \<and> mat4_m (QM_perspective tanf fov aspect near far) 1 2 = f_0
     \<and> mat4_m (QM_perspective tanf fov aspect near far) 1 3 = f_0
     \<and> mat4_m (QM_perspective tanf fov aspect near far) 2 0 = f_0
     \<and> mat4_m (QM_perspective tanf fov aspect near far) 2 1 = f_0
     \<and> mat4_m (QM_perspective tanf fov aspect near far) 3 0 = f_0
     \<and> mat4_m (QM_perspective tanf fov aspect near far) 3 1 = f_0
     \<and> mat4_m (QM_perspective tanf fov aspect near far) 3 3 = f_0"
    by (simp add: QM_perspective_def Let_def mat4_m_set)
       (simp add: QMmat4_zero_def QMvec4_default_def mat4_m_def mat4_col_def)
  from scenario zeros show ?thesis unfolding t_def by blast
qed

text \<open>
  With a \<open>tanf\<close> that returns \<open>1.0f\<close> at 45 degrees, the matrix of the scenario: both
  diagonal entries are 1, \<open>m[2][2] = -1.002002\<close> and \<open>m[3][2] = -0.2002002\<close>.
\<close>

theorem QM_perspective_entries_witness:
  "\<not> is_nan (tanf_special (QM_deg_to_rad (fmul f_90 f_half)))
   \<and> feq (mat4_m (QM_perspective tanf_special f_90 f_1 f_0p1 f_100) 0 0)
          (mat4_m (QM_perspective tanf_special f_90 f_1 f_0p1 f_100) 1 1)
   \<and> QM_perspective tanf_special f_90 f_1 f_0p1 f_100
       = QMmat4 (QMvec4 f_1 f_0 f_0 f_0) (QMvec4 f_0 f_1 f_0 f_0)
                (QMvec4 f_0 f_0 (F32 True 127 16794) f_m1)
                (QMvec4 f_0 f_0 (F32 True 124 5046600) f_0)"
proof -
  have h: "\<not> is_nan (tanf_special (QM_deg_to_rad (fmul f_90 f_half)))"
    by code_simp
  have m: "QM_perspective tanf_special f_90 f_1 f_0p1 f_100
       = QMmat4 (QMvec4 f_1 f_0 f_0 f_0) (QMvec4 f_0 f_1 f_0 f_0)
                (QMvec4 f_0 f_0 (F32 True 127 16794) f_m1)
                (QMvec4 f_0 f_0 (F32 True 124 5046600) f_0)"
    by code_simp
  from h m show ?thesis
    using QM_perspective_entries [of tanf_special]
    by blast
qed

text \<open>
  C9. \<open>translate(Vector3(1, 2, 3)) * Vector4(0, 0, 0, 1)\<close> is \<open>Vector4(1, 2, 3, 1)\<close>, each
  component the very float.
\<close>

theorem translate_123_times_0001:
  "mat4_mul_vec4 (QM_translate_vec3 (QMvec3 f_1 f_2 f_3)) (QMvec4 f_0 f_0 f_0 f_1)
     = QMvec4 f_1 f_2 f_3 f_1"
  by code_simp

text \<open>
  C10. The claim: for every quaternion \<open>q\<close>, \<open>length(conjugate(q)) == length(q)\<close>, the
  two lengths being bit-identical. At \<open>q = (NaN, 0, 0, 1)\<close> both lengths are NaN, which
  compares unequal with \<open>==\<close>, and they are not the same bits either: the sign bit that
  \<open>conjugate\<close> flips in \<open>x\<close> goes through the product, the sums and the root, so the
  length of \<open>q\<close> is \<open>0x7FC00000\<close> and the length of the conjugate is \<open>0xFFC00000\<close>.
\<close>

theorem QM_length_quat_conjugate_nan_counterexample:
  "QM_length_quat (QMquaternion f_nan f_0 f_0 f_1) = f_nan
   \<and> QM_length_quat (QM_conjugate (QMquaternion f_nan f_0 f_0 f_1)) = qnan
   \<and> QM_length_quat (QM_conjugate (QMquaternion f_nan f_0 f_0 f_1))
       \<noteq> QM_length_quat (QMquaternion f_nan f_0 f_0 f_1)
   \<and> \<not> feq (QM_length_quat (QM_conjugate (QMquaternion f_nan f_0 f_0 f_1)))
            (QM_length_quat (QMquaternion f_nan f_0 f_0 f_1))"
  by code_simp

text \<open>
  C10 as amended: for every quaternion \<open>q\<close> with no NaN component, the length of the
  conjugate and the length of \<open>q\<close> are the same float, bit for bit (the products
  \<open>(-x) * (-x)\<close> and \<open>x * x\<close> are the same, so \<open>dot\<close> and its square root are), and they
  compare equal with \<open>==\<close> (the length is the root of a sum of squares, possibly
  infinite, and not a NaN).
\<close>

theorem QM_length_quat_conjugate_no_nan:
  "\<not> is_nan (qx q) \<and> \<not> is_nan (qy q) \<and> \<not> is_nan (qz q) \<and> \<not> is_nan (qw q)
     \<longrightarrow> QM_length_quat (QM_conjugate q) = QM_length_quat q
         \<and> feq (QM_length_quat (QM_conjugate q)) (QM_length_quat q)"
  using length_quat_not_nan [of q]
  by (simp add: QM_length_quat_def dot_quat_conjugate feq_same)

text \<open>The quaternion \<open>(1, 2, -2, 4)\<close> and its conjugate have the length 5.\<close>

theorem QM_length_quat_conjugate_no_nan_witness:
  "\<not> is_nan f_1 \<and> \<not> is_nan f_2 \<and> \<not> is_nan f_m2 \<and> \<not> is_nan (F32 False 129 0)
   \<and> QM_length_quat (QMquaternion f_1 f_2 f_m2 (F32 False 129 0)) = F32 False 129 (2 ^ 21)
   \<and> QM_length_quat (QM_conjugate (QMquaternion f_1 f_2 f_m2 (F32 False 129 0)))
       = QM_length_quat (QMquaternion f_1 f_2 f_m2 (F32 False 129 0))
   \<and> feq (QM_length_quat (QM_conjugate (QMquaternion f_1 f_2 f_m2 (F32 False 129 0))))
          (QM_length_quat (QMquaternion f_1 f_2 f_m2 (F32 False 129 0)))"
proof -
  have n: "\<not> is_nan f_1 \<and> \<not> is_nan f_2 \<and> \<not> is_nan f_m2 \<and> \<not> is_nan (F32 False 129 0)"
    by code_simp
  have l: "QM_length_quat (QMquaternion f_1 f_2 f_m2 (F32 False 129 0)) = F32 False 129 (2 ^ 21)"
    by code_simp
  have "QM_length_quat (QM_conjugate (QMquaternion f_1 f_2 f_m2 (F32 False 129 0)))
          = QM_length_quat (QMquaternion f_1 f_2 f_m2 (F32 False 129 0))
        \<and> feq (QM_length_quat (QM_conjugate (QMquaternion f_1 f_2 f_m2 (F32 False 129 0))))
              (QM_length_quat (QMquaternion f_1 f_2 f_m2 (F32 False 129 0)))"
    by (rule QM_length_quat_conjugate_no_nan
          [of "QMquaternion f_1 f_2 f_m2 (F32 False 129 0)", THEN mp])
       (use n in simp)
  with n l show ?thesis by blast
qed

end
